theory Spec2Isabelle
  imports Complex_Main "HOL-Library.Sublist"
begin

section \<open>Data model (types.ts)\<close>

text \<open>
  The records follow the interfaces of \<^verbatim>\<open>types.ts\<close>. Field names that occur in
  several interfaces (\<^verbatim>\<open>id\<close>, \<^verbatim>\<open>title\<close>, \<^verbatim>\<open>slug\<close>, \<^verbatim>\<open>status\<close>, ...) carry the
  interface as a prefix. Optional fields are options. The user interface literals
  of the source are Japanese; they are rendered here by ASCII glosses, and no
  statement below depends on their text.
\<close>

datatype SiteType = Corporate | Personal

datatype SiteTone = Professional | Creative | Minimal | Vivid | Brutalist

record Identity =
  siteName :: string
  identity_slug :: string
  mission :: string
  brandDescription :: string
  themeColor :: string
  tone :: "SiteTone option"

record HubPage =
  hub_id :: string
  hub_title :: string
  hub_slug :: string
  hub_description :: string
  hub_html :: "string option"

record Article =
  article_id :: string
  article_hubId :: string
  article_title :: string
  article_slug :: string
  article_contentHtml :: "string option"
  article_createdAt :: string

record GitHubConfig =
  token :: string
  repo :: string
  branch :: string
  path :: string

datatype taskStatus = pending | running | completed | failed

record ExecutionTask =
  task_id :: string
  task_label :: string
  task_status :: taskStatus
  groupId :: "string option"
  groupLabel :: "string option"

datatype status =
    idle | importing | analyzing_site | building_identity | generating_strategy
  | generating_hubs | ready | creating_repo | pushing_files | enabling_pages
  | tuning_design | deployed

record ProjectState =
  opinion :: string
  siteType :: SiteType
  identity :: "Identity option"
  hubs :: "HubPage list"
  articles :: "Article list"
  gtmId :: string
  adsenseId :: string
  strategyRationale :: "string option"
  status :: status
  executionPlan :: "ExecutionTask list"
  currentDetail :: "string option"
  githubConfig :: GitHubConfig


section \<open>Task ledger\<close>

text \<open>
  \<^verbatim>\<open>setTaskStatus\<close> maps over the ledger of the latest state and replaces the status
  of every task whose id equals the given one.
\<close>

definition setTaskStatus :: "string \<Rightarrow> taskStatus \<Rightarrow> ProjectState \<Rightarrow> ProjectState" where
  "setTaskStatus i s prev =
     prev\<lparr>executionPlan :=
       map (\<lambda>t. if task_id t = i then t\<lparr>task_status := s\<rparr> else t) (executionPlan prev)\<rparr>"

section \<open>Workflow definition table\<close>

record WorkflowStep =
  step_id :: string
  step_label :: string
  step_description :: string
  statuses :: "status list"

record WorkflowDefinition =
  wf_title :: string
  steps :: "WorkflowStep list"

definition wf_build :: WorkflowDefinition where
  "wf_build = \<lparr>wf_title = ''Site build flow'', steps =
     [\<lparr>step_id = ''phase1'', step_label = ''Brand definition'',
        step_description = ''Identity by AI'', statuses = [building_identity]\<rparr>,
      \<lparr>step_id = ''phase2'', step_label = ''Strategy and design'',
        step_description = ''Site structure and UX'', statuses = [generating_strategy]\<rparr>,
      \<lparr>step_id = ''phase3'', step_label = ''Implementation'',
        step_description = ''HTML/CSS coding and generation'', statuses = [generating_hubs]\<rparr>,
      \<lparr>step_id = ''phase4'', step_label = ''Finishing'',
        step_description = ''Integration and final adjustment'', statuses = [ready]\<rparr>]\<rparr>"

definition wf_deploy :: WorkflowDefinition where
  "wf_deploy = \<lparr>wf_title = ''GitHub deploy flow'', steps =
     [\<lparr>step_id = ''phase1'', step_label = ''Repository preparation'',
        step_description = ''Create or check the remote repository'', statuses = [creating_repo]\<rparr>,
      \<lparr>step_id = ''phase2'', step_label = ''Asset transfer'',
        step_description = ''Push and commit files'', statuses = [pushing_files]\<rparr>,
      \<lparr>step_id = ''phase3'', step_label = ''Publication settings'',
        step_description = ''Enable GitHub Pages'', statuses = [enabling_pages, deployed]\<rparr>]\<rparr>"

definition wf_import :: WorkflowDefinition where
  "wf_import = \<lparr>wf_title = ''Repository restore flow'', steps =
     [\<lparr>step_id = ''phase1'', step_label = ''Resource fetch'',
        step_description = ''Analysis of repository information'', statuses = [importing]\<rparr>,
      \<lparr>step_id = ''phase2'', step_label = ''Structure analysis'',
        step_description = ''HTML analysis and identity extraction'', statuses = [analyzing_site]\<rparr>]\<rparr>"

definition wf_tune :: WorkflowDefinition where
  "wf_tune = \<lparr>wf_title = ''Design tuning flow'', steps =
     [\<lparr>step_id = ''planning'', step_label = ''Work planning'',
        step_description = ''Instruction analysis and plan construction'', statuses = [tuning_design]\<rparr>,
      \<lparr>step_id = ''execution'', step_label = ''Design application'',
        step_description = ''HTML refactoring of each page'', statuses = [tuning_design]\<rparr>]\<rparr>"

text \<open>
  \<^verbatim>\<open>WORKFLOWS\<close> is an object literal with the keys \<^verbatim>\<open>build\<close>, \<^verbatim>\<open>deploy\<close>, \<^verbatim>\<open>import\<close>,
  \<^verbatim>\<open>tune\<close>; \<^verbatim>\<open>for (const key in WORKFLOWS)\<close> visits them in this insertion order.
\<close>

definition WORKFLOWS :: "(string \<times> WorkflowDefinition) list" where
  "WORKFLOWS = [(''build'', wf_build), (''deploy'', wf_deploy),
                (''import'', wf_import), (''tune'', wf_tune)]"

text \<open>\<^verbatim>\<open>Array.prototype.findIndex\<close>, with \<open>None\<close> for the result \<^verbatim>\<open>-1\<close>.\<close>

fun findIndex :: "('a \<Rightarrow> bool) \<Rightarrow> 'a list \<Rightarrow> nat option" where
  "findIndex P [] = None"
| "findIndex P (x # xs) = (if P x then Some 0 else map_option Suc (findIndex P xs))"

fun workflowInfoIn ::
  "(string \<times> WorkflowDefinition) list \<Rightarrow> status \<Rightarrow> (WorkflowDefinition \<times> nat) option" where
  "workflowInfoIn [] s = None"
| "workflowInfoIn ((key, def) # rest) s =
     (case findIndex (\<lambda>step. s \<in> set (statuses step)) (steps def) of
        Some stepIndex \<Rightarrow> Some (def, stepIndex)
      | None \<Rightarrow> workflowInfoIn rest s)"

definition getCurrentWorkflowInfo :: "status \<Rightarrow> (WorkflowDefinition \<times> nat) option" where
  "getCurrentWorkflowInfo s = workflowInfoIn WORKFLOWS s"

text \<open>
  All (definition, step index) pairs of a table whose step lists the status, in
  table order: the candidates among which \<open>getCurrentWorkflowInfo\<close> returns the
  first.
\<close>

definition stepsContaining ::
  "(string \<times> WorkflowDefinition) list \<Rightarrow> status \<Rightarrow> (WorkflowDefinition \<times> nat) list" where
  "stepsContaining table s =
     concat (map (\<lambda>(key, def).
       map (\<lambda>i. (def, i))
         (filter (\<lambda>i. s \<in> set (statuses (steps def ! i))) [0..<length (steps def)])) table)"

section \<open>Strings and errors\<close>

text \<open>\<^verbatim>\<open>String.prototype.includes\<close> and \<^verbatim>\<open>endsWith\<close> on character lists.\<close>

fun includesStr :: "string \<Rightarrow> string \<Rightarrow> bool" where
  "includesStr [] sub = (sub = [])"
| "includesStr (c # cs) sub = (prefix sub (c # cs) \<or> includesStr cs sub)"

definition endsWith :: "string \<Rightarrow> string \<Rightarrow> bool" where
  "endsWith s suf = suffix suf s"

text \<open>Decimal rendering of a number inside a template literal.\<close>

function string_of_nat :: "nat \<Rightarrow> string" where
  "string_of_nat n =
     (if n < 10 then [''0123456789'' ! n]
      else string_of_nat (n div 10) @ [''0123456789'' ! (n mod 10)])"
  by pat_completeness auto
termination
  by (relation "measure id") auto

declare string_of_nat.simps [simp del]

text \<open>
  A thrown JavaScript value, as far as the code inspects it: \<^verbatim>\<open>e.name\<close>,
  \<^verbatim>\<open>e.message\<close> (absent on values that are not errors) and \<^verbatim>\<open>e.status\<close>.
\<close>

record error =
  err_name :: string
  err_message :: "string option"
  err_status :: "nat option"

text \<open>\<^verbatim>\<open>new Error(msg)\<close> and \<^verbatim>\<open>new DOMException(msg, "AbortError")\<close>.\<close>

definition Error :: "string \<Rightarrow> error" where
  "Error msg = \<lparr>err_name = ''Error'', err_message = Some msg, err_status = None\<rparr>"

definition DOMException :: "string \<Rightarrow> string \<Rightarrow> error" where
  "DOMException msg name = \<lparr>err_name = name, err_message = Some msg, err_status = None\<rparr>"

definition isAbortError :: "error \<Rightarrow> bool" where
  "isAbortError e = (err_name e = ''AbortError'')"

section \<open>Numbers\<close>

text \<open>
  A JavaScript number is an IEEE 754 double: a finite value (a rational of the form
  \<open>m * 2 ^ e\<close> with \<open>\<bar>m\<bar> < 2 ^ 53\<close> and \<open>- 1074 \<le> e \<le> 971\<close>), the negative zero, one of the two
  infinities, or \<^verbatim>\<open>NaN\<close>.
\<close>

datatype number = Double rat | NegativeZero | Infinity | NegativeInfinity | NaN

text \<open>The number of binary digits of a positive integer.\<close>

function bitLength :: "int \<Rightarrow> int" where
  "bitLength n = (if n \<le> 0 then 0 else 1 + bitLength (n div 2))"
  by pat_completeness auto
termination
  by (relation "measure nat") auto

declare bitLength.simps [simp del]

text \<open>\<open>ilog2 q\<close> is the \<open>e\<close> with \<open>2 ^ e \<le> q < 2 ^ (e + 1)\<close>, for a positive \<open>q\<close>.\<close>

definition ilog2 :: "rat \<Rightarrow> int" where
  "ilog2 q = (let (a, b) = quotient_of q;
                  d = bitLength a - bitLength b
              in if 2 powi d \<le> q then d else d - 1)"

text \<open>Rounding to the nearest integer, a tie to the even one.\<close>

definition roundHalfEven :: "rat \<Rightarrow> int" where
  "roundHalfEven t = (let f = \<lfloor>t\<rfloor>; r = t - of_int f
                      in if r < 1 / 2 \<or> (r = 1 / 2 \<and> even f) then f else f + 1)"

text \<open>
  The double that an arithmetic operation returns when its exact result is \<open>q\<close>
  (rounding to nearest, ties to even): a significand of 53 binary digits, or fewer
  below \<open>2 ^ - 1022\<close>, where the spacing of the doubles stays \<open>2 ^ - 1074\<close>; a result
  that rounds to \<open>2 ^ 1024\<close> or more in magnitude is an infinity, and a negative one
  that rounds to zero is the negative zero.
\<close>

definition roundDouble :: "rat \<Rightarrow> number" where
  "roundDouble q =
     (if q = 0 then Double 0
      else (let a = \<bar>q\<bar>;
                p = max (ilog2 a - 52) (- 1074);
                r = of_int (roundHalfEven (a / 2 powi p)) * 2 powi p
            in if 2 ^ 1024 \<le> r then (if 0 < q then Infinity else NegativeInfinity)
               else if r = 0 then (if 0 < q then Double 0 else NegativeZero)
               else Double (sgn q * r)))"

text \<open>\<^verbatim>\<open>x * 1.5\<close>; the literal \<^verbatim>\<open>1.5\<close> is the double \<open>3/2\<close>.\<close>

fun times1_5 :: "number \<Rightarrow> number" where
  "times1_5 (Double x) = roundDouble (x * (3 / 2))"
| "times1_5 NegativeZero = NegativeZero"
| "times1_5 Infinity = Infinity"
| "times1_5 NegativeInfinity = NegativeInfinity"
| "times1_5 NaN = NaN"

declare times1_5.simps [simp del]

section \<open>Retry policy of the generation service (geminiService.ts)\<close>

text \<open>
  The cancellation signal as a retry loop sees it. The loop reads \<^verbatim>\<open>signal?.aborted\<close>
  before attempt \<open>i\<close> (observation point \<open>2 * i\<close>) and in the \<^verbatim>\<open>catch\<close> block after
  attempt \<open>i\<close> failed (observation point \<open>2 * i + 1\<close>). \<open>Some c\<close> is a signal that reads
  aborted from observation point \<open>c\<close> on; \<open>None\<close> is a signal that is absent or never
  aborted.
\<close>

type_synonym abortSignal = "nat option"

definition aborted_at :: "abortSignal \<Rightarrow> nat \<Rightarrow> bool" where
  "aborted_at signal t = (case signal of None \<Rightarrow> False | Some c \<Rightarrow> c \<le> t)"

text \<open>
  What a run of a retry loop did: its result (\<open>Inl\<close> the thrown value), how often
  it invoked the operation, and the delays in milliseconds it passed to
  \<^verbatim>\<open>setTimeout\<close>, in order.
\<close>

record 'a attempts =
  outcome :: "error + 'a"
  invocations :: nat
  waits :: "number list"

definition isRetryable :: "error \<Rightarrow> bool" where
  "isRetryable e =
     (let isNetworkError = (err_name e = ''TypeError''
            \<or> (case err_message e of None \<Rightarrow> False | Some m \<Rightarrow> includesStr m ''fetch''));
          isRateLimit = (err_status e = Some 429
            \<or> (case err_message e of None \<Rightarrow> False | Some m \<Rightarrow> includesStr m ''429''))
      in isNetworkError \<or> isRateLimit
         \<or> (case err_message e of None \<Rightarrow> False | Some m \<Rightarrow> includesStr m ''overloaded''))"

definition userAbort :: error where
  "userAbort = DOMException ''Interrupted by the user'' ''AbortError''"

definition missingApiKey :: error where
  "missingApiKey = Error ''API key is not set. Check the environment variable GEMINI_API_KEY.''"

definition connectionFailed :: error where
  "connectionFailed = Error ''Could not connect to the API. Try again later.''"

text \<open>
  The specification calls the failure of an exhausted retry budget
  \<^verbatim>\<open>ExhaustedRetries\<close>, a wrapper around the last failure. A thrown value that is
  such a wrapper says so by its name.
\<close>

definition isExhaustedRetries :: "error \<Rightarrow> bool" where
  "isExhaustedRetries e = (err_name e = ''ExhaustedRetries'')"

text \<open>
  The \<^verbatim>\<open>for\<close> loop of \<^verbatim>\<open>retryWithBackoff\<close> from iteration \<open>i\<close> with the current
  \<open>delay\<close>. \<open>operation i\<close> is what the invocation numbered \<open>i\<close> (from 0) of the
  operation does. \<^verbatim>\<open>delay *= 1.5\<close> is a multiplication of doubles.
\<close>

function retryLoop ::
  "(nat \<Rightarrow> error + 'a) \<Rightarrow> nat \<Rightarrow> abortSignal \<Rightarrow> nat \<Rightarrow> number \<Rightarrow> 'a attempts" where
  "retryLoop operation maxRetries signal i delay =
     (if i < maxRetries then
        (if aborted_at signal (2 * i)
         then \<lparr>outcome = Inl userAbort, invocations = 0, waits = []\<rparr>
         else (case operation i of
                 Inr v \<Rightarrow> \<lparr>outcome = Inr v, invocations = 1, waits = []\<rparr>
               | Inl e \<Rightarrow>
                   if aborted_at signal (2 * i + 1)
                   then \<lparr>outcome = Inl userAbort, invocations = 1, waits = []\<rparr>
                   else if \<not> isRetryable e \<or> i = maxRetries - 1
                   then \<lparr>outcome = Inl e, invocations = 1, waits = []\<rparr>
                   else (let r = retryLoop operation maxRetries signal (i + 1) (times1_5 delay)
                         in r\<lparr>invocations := Suc (invocations r), waits := delay # waits r\<rparr>)))
      else \<lparr>outcome = Inl connectionFailed, invocations = 0, waits = []\<rparr>)"
  by pat_completeness auto
termination
  by (relation "measure (\<lambda>(operation, maxRetries, signal, i, delay). maxRetries - i)") auto

declare retryLoop.simps [simp del]

definition retryWithBackoff ::
  "string \<Rightarrow> (nat \<Rightarrow> error + 'a) \<Rightarrow> nat \<Rightarrow> number \<Rightarrow> abortSignal \<Rightarrow> 'a attempts" where
  "retryWithBackoff apiKey operation maxRetries initialDelay signal =
     (if apiKey = [] then \<lparr>outcome = Inl missingApiKey, invocations = 0, waits = []\<rparr>
      else retryLoop operation maxRetries signal 0 initialDelay)"

text \<open>
  Every agent of \<^verbatim>\<open>geminiService.ts\<close> (\<^verbatim>\<open>generateIdentityAgent\<close>,
  \<^verbatim>\<open>analyzeSiteIdentityAgent\<close>, \<^verbatim>\<open>analyzeRepoStructureAgent\<close>, \<^verbatim>\<open>generateStrategyAgent\<close>,
  \<^verbatim>\<open>generateHtmlAgent\<close>, \<^verbatim>\<open>generateTunePlanAgent\<close>, \<^verbatim>\<open>tunePageDesignAgent\<close>,
  \<^verbatim>\<open>generateReadmeAgent\<close>, and the chat agents) issues its remote call as
  \<^verbatim>\<open>retryWithBackoff(() => ai.models.generateContent(...), 5, 2000, signal)\<close>.
\<close>

definition agentCall :: "string \<Rightarrow> (nat \<Rightarrow> error + 'a) \<Rightarrow> abortSignal \<Rightarrow> 'a attempts" where
  "agentCall apiKey generateContent signal =
     retryWithBackoff apiKey generateContent 5 (Double 2000) signal"

section \<open>Retry policy of the hosting service (githubService.ts)\<close>

text \<open>
  A value that \<^verbatim>\<open>JSON.parse\<close> returns. The members of an object are listed in the
  order of the text, where a later member of the same name overrides an earlier
  one. Numbers are the integers that a double holds exactly and prints in decimal
  (magnitude below \<open>2 ^ 53\<close>).
\<close>

datatype json =
    JNull | JBool bool | JNumber int | JString string
  | JArray "json list" | JObject "(string \<times> json) list"

text \<open>
  An HTTP response as far as the code reads it: the status, and what
  \<^verbatim>\<open>res.json()\<close> settles with (\<open>Inl\<close> the reason when it rejects, as it does on a body
  that is not JSON).
\<close>

record Response =
  res_status :: nat
  res_json :: "error + json"

definition ok :: "Response \<Rightarrow> bool" where
  "ok res = (200 \<le> res_status res \<and> res_status res \<le> 299)"

definition githubAbort :: error where
  "githubAbort = DOMException ''Aborted'' ''AbortError''"

definition httpError :: "nat \<Rightarrow> error" where
  "httpError st = Error (''HTTP '' @ string_of_nat st)"

text \<open>
  The \<^verbatim>\<open>try\<close> block of one iteration: statuses 429 and 5xx are thrown. In the loop,
  the delay \<^verbatim>\<open>1000 * Math.pow(2, i)\<close> is the double nearest to \<open>1000 * 2 ^ i\<close>.
\<close>

definition tryFetch :: "error + Response \<Rightarrow> error + Response" where
  "tryFetch r = (case r of
       Inl e \<Rightarrow> Inl e
     | Inr res \<Rightarrow> if res_status res = 429 \<or> res_status res \<ge> 500
                  then Inl (httpError (res_status res)) else Inr res)"

text \<open>The two \<^verbatim>\<open>throw\<close> statements after the loop.\<close>

definition throwLast :: "error option \<Rightarrow> error" where
  "throwLast lastError = (case lastError of
       None \<Rightarrow> Error ''A network error occurred.''
     | Some e \<Rightarrow>
         if err_name e = ''TypeError''
            \<or> (case err_message e of None \<Rightarrow> False | Some m \<Rightarrow> includesStr m ''Failed to fetch'')
         then Error (''Could not connect to the GitHub API: ''
                @ (case err_message e of None \<Rightarrow> ''undefined'' | Some m \<Rightarrow> m)
                @ '' (Network Error)'')
         else e)"

function fetchLoop ::
  "(nat \<Rightarrow> error + Response) \<Rightarrow> nat \<Rightarrow> abortSignal \<Rightarrow> nat \<Rightarrow> error option \<Rightarrow> Response attempts" where
  "fetchLoop fetch retries signal i lastError =
     (if i < retries then
        (if aborted_at signal (2 * i)
         then \<lparr>outcome = Inl githubAbort, invocations = 0, waits = []\<rparr>
         else (case tryFetch (fetch i) of
                 Inr res \<Rightarrow> \<lparr>outcome = Inr res, invocations = 1, waits = []\<rparr>
               | Inl e \<Rightarrow>
                   if err_name e = ''AbortError''
                   then \<lparr>outcome = Inl e, invocations = 1, waits = []\<rparr>
                   else (let r = fetchLoop fetch retries signal (i + 1) (Some e)
                         in r\<lparr>invocations := Suc (invocations r),
                              waits := (if i < retries - 1 then [roundDouble (1000 * 2 ^ i)] else [])
                                         @ waits r\<rparr>)))
      else \<lparr>outcome = Inl (throwLast lastError), invocations = 0, waits = []\<rparr>)"
  by pat_completeness auto
termination
  by (relation "measure (\<lambda>(fetch, retries, signal, i, lastError). retries - i)") auto

declare fetchLoop.simps [simp del]

definition fetchWithRetry ::
  "(nat \<Rightarrow> error + Response) \<Rightarrow> nat \<Rightarrow> abortSignal \<Rightarrow> Response attempts" where
  "fetchWithRetry fetch retries signal = fetchLoop fetch retries signal 0 None"

text \<open>
  \<^verbatim>\<open>String(v)\<close>, which is how a template literal prints a value, where it returns:
  an array prints its elements separated by commas, \<^verbatim>\<open>null\<close> among them as the empty
  string.
\<close>

fun joinComma :: "string list \<Rightarrow> string" where
  "joinComma [] = []"
| "joinComma [x] = x"
| "joinComma (x # y # ys) = x @ '','' @ joinComma (y # ys)"

fun toString :: "json \<Rightarrow> string" where
  "toString JNull = ''null''"
| "toString (JBool b) = (if b then ''true'' else ''false'')"
| "toString (JNumber n) = (if n < 0 then ''-'' @ string_of_nat (nat (- n)) else string_of_nat (nat n))"
| "toString (JString x) = x"
| "toString (JArray xs) = joinComma (map (\<lambda>x. if x = JNull then [] else toString x) xs)"
| "toString (JObject ms) = ''[object Object]''"

text \<open>
  The conversion of an object to a string calls its \<^verbatim>\<open>toString\<close>. A parsed object
  inherits the one of \<^verbatim>\<open>Object.prototype\<close>, unless it has a member of that name,
  which is never a function: then the conversion throws a \<^verbatim>\<open>TypeError\<close>. An array
  converts its elements.
\<close>

fun printable :: "json \<Rightarrow> bool" where
  "printable (JArray xs) = list_all printable xs"
| "printable (JObject ms) = (map_of ms ''toString'' = None)"
| "printable v = True"

definition notPrimitive :: error where
  "notPrimitive = \<lparr>err_name = ''TypeError'',
                    err_message = Some ''Cannot convert object to primitive value'',
                    err_status = None\<rparr>"

text \<open>A value inside a template literal; \<open>None\<close> is \<^verbatim>\<open>undefined\<close>.\<close>

definition interpolate :: "json option \<Rightarrow> error + string" where
  "interpolate m = (case m of
       None \<Rightarrow> Inr ''undefined''
     | Some v \<Rightarrow> if printable v then Inr (toString v) else Inl notPrimitive)"

text \<open>
  The property read \<^verbatim>\<open>error.message\<close> on a parsed body. On \<^verbatim>\<open>null\<close> it throws a
  \<^verbatim>\<open>TypeError\<close> (the text of its message is the engine's); an object has the member
  or not; any other value has no such property.
\<close>

definition nullRead :: error where
  "nullRead = \<lparr>err_name = ''TypeError'',
               err_message = Some ''Cannot read properties of null (reading message)'',
               err_status = None\<rparr>"

definition messageOf :: "json \<Rightarrow> error + json option" where
  "messageOf v = (case v of
       JNull \<Rightarrow> Inl nullRead
     | JObject ms \<Rightarrow> Inr (map_of (rev ms) ''message'')
     | _ \<Rightarrow> Inr None)"

text \<open>
  What \<^verbatim>\<open>${error.message}\<close> evaluates to after
  \<^verbatim>\<open>const error = await res.json().catch(() => ({ message: ... }))\<close>: the handler
  replaces a rejection only, not a body that parses to \<^verbatim>\<open>null\<close>.
\<close>

definition errorMessage :: "Response \<Rightarrow> error + string" where
  "errorMessage res =
     (case messageOf (case res_json res of
                        Inl reason \<Rightarrow> JObject [(''message'', JString ''unknown error'')]
                      | Inr v \<Rightarrow> v) of
        Inl e \<Rightarrow> Inl e
      | Inr m \<Rightarrow> interpolate m)"

record RepoDetails =
  default_branch :: string

text \<open>
  \<^verbatim>\<open>fetchRepoDetails\<close>. The cleaned repository name (the result of \<^verbatim>\<open>cleanRepo\<close>) is a
  parameter; \<open>fetch i\<close> is what the \<open>i\<close>-th \<^verbatim>\<open>fetch\<close> of the request does. The result
  is the value the promise resolves to: \<open>JNull\<close> for the \<^verbatim>\<open>return null\<close> of the 404
  branch, and the parsed body, whatever it is, for an \<^verbatim>\<open>ok\<close> answer.
\<close>

definition fetchRepoDetails ::
  "string \<Rightarrow> (nat \<Rightarrow> error + Response) \<Rightarrow> abortSignal \<Rightarrow> error + json" where
  "fetchRepoDetails cleanedRepo fetch signal =
     (if \<not> includesStr cleanedRepo ''/''
      then Inl (Error ''Enter the repository as owner/repo or as a GitHub URL.'')
      else (case outcome (fetchWithRetry fetch 3 signal) of
              Inl e \<Rightarrow> Inl e
            | Inr res \<Rightarrow>
                if \<not> ok res then
                  (if res_status res = 404 then Inr JNull
                   else (case errorMessage res of
                           Inl e \<Rightarrow> Inl e
                         | Inr m \<Rightarrow> Inl (Error (''Repository fetch failed (''
                                     @ string_of_nat (res_status res) @ ''): '' @ m))))
                else res_json res))"

text \<open>
  The callers test the result for truthiness (\<^verbatim>\<open>!details\<close>, \<^verbatim>\<open>if (details)\<close>).
\<close>

definition truthy :: "json \<Rightarrow> bool" where
  "truthy v = (case v of
       JNull \<Rightarrow> False
     | JBool b \<Rightarrow> b
     | JNumber n \<Rightarrow> n \<noteq> 0
     | JString x \<Rightarrow> x \<noteq> []
     | _ \<Rightarrow> True)"

text \<open>
  \<^verbatim>\<open>enablePages\<close>, with the lines it writes by \<^verbatim>\<open>console.warn\<close> as second component.
  The URL and the request body, built from the configuration, are the business of
  the \<open>fetch\<close> oracle. The template literal is evaluated before \<^verbatim>\<open>console.warn\<close> is
  called, so nothing is written when reading \<^verbatim>\<open>error.message\<close> throws.
\<close>

definition enablePages ::
  "(nat \<Rightarrow> error + Response) \<Rightarrow> abortSignal \<Rightarrow> (error + unit) \<times> string list" where
  "enablePages fetch signal =
     (case outcome (fetchWithRetry fetch 3 signal) of
        Inl e \<Rightarrow> (Inl e, [])
      | Inr res \<Rightarrow>
          if \<not> ok res \<and> res_status res \<noteq> 409
          then (case errorMessage res of
                  Inl e \<Rightarrow> (Inl e, [])
                | Inr m \<Rightarrow> (Inr (), [''GitHub Pages enable error (''
                                      @ string_of_nat (res_status res) @ ''): '' @ m]))
          else (Inr (), []))"

section \<open>Pipeline runners (the App component)\<close>

text \<open>
  The remote calls a runner issues, with the argument that tells them apart.
\<close>

datatype call =
    GenerateIdentityAgent | GenerateStrategyAgent | GenerateHtmlAgent string
  | GenerateTunePlanAgent | TunePageDesignAgent string | GenerateReadmeAgent
  | AnalyzeSiteIdentityAgent | AnalyzeRepoStructureAgent
  | FetchRepoDetails | CreateRepository | FetchRepoStructure | FetchFileContent string
  | GetContents string | PutContents string | EnablePages

datatype nodeType = blobNode | treeNode

record GitHubFileNode =
  node_path :: string
  node_type :: nodeType
  node_sha :: string
  node_url :: string

text \<open>
  The remote services as a runner sees them: what the call that is the \<open>k\<close>-th
  remote call of the run (counted from 0) settles with, \<open>Inl\<close> for a rejection.
  For the two requests of \<^verbatim>\<open>publishToGithub\<close> the oracle is the result of
  \<^verbatim>\<open>fetchWithRetry\<close>; the result of the read request only supplies the \<^verbatim>\<open>sha\<close> of the
  write request and is swallowed otherwise, so it has no oracle.
\<close>

record services =
  svc_generateIdentityAgent :: "nat \<Rightarrow> error + Identity"
  svc_generateStrategyAgent :: "nat \<Rightarrow> error + (HubPage list \<times> string)"
  svc_generateHtmlAgent :: "nat \<Rightarrow> error + string"
  svc_generateTunePlanAgent :: "nat \<Rightarrow> error + (string \<times> string list)"
  svc_tunePageDesignAgent :: "nat \<Rightarrow> error + string"
  svc_generateReadmeAgent :: "nat \<Rightarrow> error + string"
  svc_analyzeSiteIdentityAgent :: "nat \<Rightarrow> error + Identity"
  svc_analyzeRepoStructureAgent :: "nat \<Rightarrow> error + (HubPage list \<times> Article list)"
  svc_fetchRepoDetails :: "nat \<Rightarrow> error + RepoDetails option"
  svc_createRepository :: "nat \<Rightarrow> error + unit"
  svc_fetchRepoStructure :: "nat \<Rightarrow> error + GitHubFileNode list"
  svc_fetchFileContent :: "nat \<Rightarrow> error + string"
  svc_putContents :: "nat \<Rightarrow> error + Response"
  svc_enablePages :: "nat \<Rightarrow> error + unit"

text \<open>
  What a run works on: the latest React state, the \<^verbatim>\<open>aborted\<close> flag of the
  run's \<^verbatim>\<open>AbortController\<close>, and the remote calls issued so far.
\<close>

record world =
  state :: ProjectState
  aborted :: bool
  issued :: "call list"

definition startTask :: "ProjectState \<Rightarrow> world" where
  "startTask st = \<lparr>state = st, aborted = False, issued = []\<rparr>"

text \<open>\<^verbatim>\<open>setState(prev => ...)\<close>: the update is applied to the latest state.\<close>

definition updateState :: "(ProjectState \<Rightarrow> ProjectState) \<Rightarrow> world \<Rightarrow> world" where
  "updateState f w = w\<lparr>state := f (state w)\<rparr>"

text \<open>
  \<^verbatim>\<open>handleAbort\<close>, the handler of the cancel button. It is re-created at every
  render, so the \<^verbatim>\<open>state\<close> it reads is the latest one.
\<close>

definition handleAbort :: "world \<Rightarrow> world" where
  "handleAbort w =
     updateState (\<lambda>s. s\<lparr>status := (if identity (state w) \<noteq> None then ready else idle),
                          executionPlan := [], currentDetail := None\<rparr>)
       (w\<lparr>aborted := True\<rparr>)"

text \<open>
  Issuing a remote call. The run is suspended while the call is in flight, which
  is when the handler of the cancel button can run: \<open>cancelAt = Some k\<close> says that
  the button is pressed while the \<open>k\<close>-th remote call of the run is in flight,
  \<open>None\<close> that it is not pressed.
\<close>

definition remoteCall :: "nat option \<Rightarrow> call \<Rightarrow> world \<Rightarrow> world" where
  "remoteCall cancelAt c w =
     (let w' = w\<lparr>issued := issued w @ [c]\<rparr>
      in if cancelAt = Some (length (issued w)) then handleAbort w' else w')"

text \<open>How a runner ends, and how a loop inside a \<^verbatim>\<open>try\<close> block ends.\<close>

datatype exit = NotStarted | Succeeded | Failed error | Cancelled

datatype 'a ctl = Done 'a | Return | Throw error

definition task :: "string \<Rightarrow> string \<Rightarrow> taskStatus \<Rightarrow> ExecutionTask" where
  "task i l s = \<lparr>task_id = i, task_label = l, task_status = s, groupId = None, groupLabel = None\<rparr>"

definition groupTask :: "string \<Rightarrow> string \<Rightarrow> taskStatus \<Rightarrow> string \<Rightarrow> string \<Rightarrow> ExecutionTask" where
  "groupTask i l s g gl =
     \<lparr>task_id = i, task_label = l, task_status = s, groupId = Some g, groupLabel = Some gl\<rparr>"

definition cleared :: "status \<Rightarrow> ProjectState \<Rightarrow> ProjectState" where
  "cleared s st = st\<lparr>status := s, executionPlan := [], currentDetail := None\<rparr>"

text \<open>
  A state that has come to rest in status \<open>s\<close>: the ledger is empty and the progress
  detail is cleared.
\<close>

definition atRest :: "status \<Rightarrow> ProjectState \<Rightarrow> bool" where
  "atRest s st = (status st = s \<and> executionPlan st = [] \<and> currentDetail st = None)"

text \<open>
  The rule the specification gives for the status after an abnormal exit: \<open>idle\<close>
  if the state holds no identity, \<open>ready\<close> if it holds one.
\<close>

definition lastKnownGood :: "ProjectState \<Rightarrow> status" where
  "lastKnownGood st = (if identity st = None then idle else ready)"




text \<open>
  A world in which the cancel button has not been pressed and cannot have been
  before the \<open>k\<close>-th call, and a world as the cancel handler leaves it.
\<close>

definition calm :: "nat \<Rightarrow> world \<Rightarrow> bool" where
  "calm k w = (\<not> aborted w \<and> length (issued w) \<le> k)"




subsection \<open>Build\<close>

definition buildCatch :: "error \<Rightarrow> world \<Rightarrow> exit \<times> world" where
  "buildCatch e w =
     (if isAbortError e then (Cancelled, w) else (Failed e, updateState (cleared idle) w))"

fun buildPages ::
  "services \<Rightarrow> nat option \<Rightarrow> HubPage list \<Rightarrow> HubPage list \<Rightarrow> world \<Rightarrow> HubPage list ctl \<times> world" where
  "buildPages svc cancelAt [] updatedHubs w = (Done updatedHubs, w)"
| "buildPages svc cancelAt (h # hs) updatedHubs w =
     (if aborted w then (Return, w)
      else
        (let w1 = updateState (setTaskStatus (''build-'' @ hub_id h) running) w;
             w2 = updateState (\<lambda>s. s\<lparr>currentDetail :=
                    Some (''Coding HTML: '' @ hub_slug h @ ''/index.html'')\<rparr>) w1;
             w3 = remoteCall cancelAt (GenerateHtmlAgent (hub_title h)) w2
         in case svc_generateHtmlAgent svc (length (issued w2)) of
              Inl e \<Rightarrow> (Throw e, w3)
            | Inr html \<Rightarrow>
                buildPages svc cancelAt hs (updatedHubs @ [h\<lparr>hub_html := Some html\<rparr>])
                  (updateState (setTaskStatus (''build-'' @ hub_id h) completed) w3)))"

definition handleInitialBuild ::
  "services \<Rightarrow> nat option \<Rightarrow> ProjectState \<Rightarrow> exit \<times> world" where
  "handleInitialBuild svc cancelAt st0 =
     (let w0 = startTask st0;
          w1 = updateState (\<lambda>s. s\<lparr>status := building_identity,
                 executionPlan := [task ''identity'' ''Brand concept'' running,
                                   task ''strategy'' ''Site structure and strategy'' pending],
                 currentDetail := Some ''Running the AI analysis...''\<rparr>) w0;
          w2 = remoteCall cancelAt GenerateIdentityAgent w1
      in case svc_generateIdentityAgent svc (length (issued w1)) of
           Inl e \<Rightarrow> buildCatch e w2
         | Inr ident \<Rightarrow>
            (let w3 = updateState (setTaskStatus ''identity'' completed) w2;
                 w4 = updateState (setTaskStatus ''strategy'' running) w3;
                 w5 = updateState (\<lambda>s. s\<lparr>identity := Some ident, status := generating_strategy,
                        currentDetail := Some ''Generating the site structure...''\<rparr>) w4;
                 w6 = remoteCall cancelAt GenerateStrategyAgent w5
             in case svc_generateStrategyAgent svc (length (issued w5)) of
                  Inl e \<Rightarrow> buildCatch e w6
                | Inr (hubs0, rationale) \<Rightarrow>
                   (let w7 = updateState (setTaskStatus ''strategy'' completed) w6;
                        hubTasks = map (\<lambda>h. groupTask (''build-'' @ hub_id h)
                                        (''Generate: '' @ hub_title h) pending
                                        ''gen-pages'' ''Generation of all pages'') hubs0
                                   @ [task ''finalize-index'' ''Top page integration'' pending];
                        w8 = updateState (\<lambda>s. s\<lparr>hubs := hubs0, status := generating_hubs,
                               strategyRationale := Some rationale,
                               executionPlan := executionPlan st0 @ hubTasks,
                               currentDetail := Some ''Starting page generation...''\<rparr>) w7
                    in case buildPages svc cancelAt hubs0 [] w8 of
                         (Throw e, w9) \<Rightarrow> buildCatch e w9
                       | (Return, w9) \<Rightarrow> (Cancelled, w9)
                       | (Done updatedHubs, w9) \<Rightarrow>
                          (let w10 = updateState (setTaskStatus ''finalize-index'' running) w9;
                               w11 = remoteCall cancelAt (GenerateHtmlAgent (siteName ident)) w10
                           in case svc_generateHtmlAgent svc (length (issued w10)) of
                                Inl e \<Rightarrow> buildCatch e w11
                              | Inr indexHtml \<Rightarrow>
                                 (let w12 = updateState (setTaskStatus ''finalize-index'' completed) w11;
                                      homeHub = \<lparr>hub_id = ''home'', hub_title = ''Home'',
                                                 hub_slug = ''index'', hub_description = ''Top page'',
                                                 hub_html = Some indexHtml\<rparr>
                                  in (Succeeded,
                                      updateState (\<lambda>s. s\<lparr>hubs := homeHub # updatedHubs, status := ready,
                                        executionPlan := [], currentDetail := None\<rparr>) w12))))))"

subsection \<open>Tune\<close>

datatype targetType = hubTarget | articleTarget

record target =
  tgt_id :: string
  tgt_title :: string
  tgt_html :: string
  tgt_type :: targetType

definition ofHub :: "HubPage \<Rightarrow> target" where
  "ofHub h = \<lparr>tgt_id = hub_id h, tgt_title = hub_title h,
              tgt_html = (case hub_html h of None \<Rightarrow> [] | Some x \<Rightarrow> x), tgt_type = hubTarget\<rparr>"

definition ofArticle :: "Article \<Rightarrow> target" where
  "ofArticle a = \<lparr>tgt_id = article_id a, tgt_title = article_title a,
                  tgt_html = (case article_contentHtml a of None \<Rightarrow> [] | Some x \<Rightarrow> x),
                  tgt_type = articleTarget\<rparr>"

definition targetsToProcess :: "string \<Rightarrow> ProjectState \<Rightarrow> target list" where
  "targetsToProcess tgt st =
     (if tgt = ''all'' then map ofHub (hubs st) @ map ofArticle (articles st)
      else (case find (\<lambda>h. hub_id h = tgt) (hubs st) of
              Some h \<Rightarrow> [ofHub h]
            | None \<Rightarrow> (case find (\<lambda>a. article_id a = tgt) (articles st) of
                         Some a \<Rightarrow> [ofArticle a]
                       | None \<Rightarrow> [])))"

text \<open>
  \<^verbatim>\<open>xs[idx] = f(xs[idx])\<close> with \<^verbatim>\<open>idx = xs.findIndex(p)\<close>. For the index \<^verbatim>\<open>-1\<close> the
  assignment creates a property of that name and leaves every element as it is.
\<close>

definition updateFound :: "('a \<Rightarrow> bool) \<Rightarrow> ('a \<Rightarrow> 'a) \<Rightarrow> 'a list \<Rightarrow> 'a list" where
  "updateFound p f xs = (case findIndex p xs of None \<Rightarrow> xs | Some idx \<Rightarrow> xs[idx := f (xs ! idx)])"

fun tunePages ::
  "services \<Rightarrow> nat option \<Rightarrow> target list \<Rightarrow> HubPage list \<times> Article list \<Rightarrow> world
     \<Rightarrow> (HubPage list \<times> Article list) ctl \<times> world" where
  "tunePages svc cancelAt [] updated w = (Done updated, w)"
| "tunePages svc cancelAt (t # ts) (updatedHubs, updatedArticles) w =
     (if aborted w then (Return, w)
      else
        (let w1 = updateState (setTaskStatus (''tune-'' @ tgt_id t) running) w;
             w2 = updateState (\<lambda>s. s\<lparr>currentDetail := Some (''Refactoring: '' @ tgt_title t)\<rparr>) w1;
             w3 = remoteCall cancelAt (TunePageDesignAgent (tgt_html t)) w2
         in case svc_tunePageDesignAgent svc (length (issued w2)) of
              Inl e \<Rightarrow> (Throw e, w3)
            | Inr newHtml \<Rightarrow>
                tunePages svc cancelAt ts
                  (if tgt_type t = hubTarget
                   then (updateFound (\<lambda>h. hub_id h = tgt_id t)
                           (\<lambda>h. h\<lparr>hub_html := Some newHtml\<rparr>) updatedHubs, updatedArticles)
                   else (updatedHubs,
                         updateFound (\<lambda>a. article_id a = tgt_id t)
                           (\<lambda>a. a\<lparr>article_contentHtml := Some newHtml\<rparr>) updatedArticles))
                  (updateState (setTaskStatus (''tune-'' @ tgt_id t) completed) w3)))"

text \<open>The \<^verbatim>\<open>try\<close> and \<^verbatim>\<open>catch\<close> blocks of \<^verbatim>\<open>handleTuneDesign\<close>.\<close>

definition tuneTry ::
  "services \<Rightarrow> nat option \<Rightarrow> string \<Rightarrow> ProjectState \<Rightarrow> world \<Rightarrow> exit \<times> world" where
  "tuneTry svc cancelAt tgt st0 w1 =
     (let w2 = remoteCall cancelAt GenerateTunePlanAgent w1
      in case svc_generateTunePlanAgent svc (length (issued w1)) of
           Inl e \<Rightarrow> (if isAbortError e then (Cancelled, w2) else (Failed e, w2))
         | Inr (planSummary, tasks) \<Rightarrow>
            (let w3 = updateState (setTaskStatus ''plan-generation'' completed) w2;
                 targets = targetsToProcess tgt st0;
                 taskList =
                   map (\<lambda>(idx, step). task (''plan-step-'' @ string_of_nat idx)
                                        (''[Policy] '' @ step) completed)
                       (zip [0..<length tasks] tasks)
                   @ map (\<lambda>t. groupTask (''tune-'' @ tgt_id t) (''Apply: '' @ tgt_title t) pending
                                 ''tune-pages'' ''Refactoring of the pages'') targets;
                 w4 = updateState (\<lambda>s. s\<lparr>executionPlan := executionPlan st0 @ taskList\<rparr>) w3
             in case tunePages svc cancelAt targets (hubs st0, articles st0) w4 of
                  (Throw e, w5) \<Rightarrow> (if isAbortError e then (Cancelled, w5) else (Failed e, w5))
                | (Return, w5) \<Rightarrow> (Cancelled, w5)
                | (Done (updatedHubs, updatedArticles), w5) \<Rightarrow>
                    (Succeeded,
                     updateState (\<lambda>s. s\<lparr>hubs := updatedHubs, articles := updatedArticles\<rparr>) w5)))"

text \<open>
  \<open>instruction\<close> is \<^verbatim>\<open>overrideInstruction || tuningInstruction\<close> and \<open>tgt\<close> is
  \<^verbatim>\<open>targetId || tuningTargetId\<close>. The \<^verbatim>\<open>finally\<close> block runs on every way out of the
  \<^verbatim>\<open>try\<close> statement, the \<^verbatim>\<open>return\<close> statements included.
\<close>

definition handleTuneDesign ::
  "services \<Rightarrow> nat option \<Rightarrow> string \<Rightarrow> string \<Rightarrow> ProjectState \<Rightarrow> exit \<times> world" where
  "handleTuneDesign svc cancelAt instruction tgt st0 =
     (if identity st0 = None \<or> instruction = [] then (NotStarted, startTask st0)
      else
        (let w0 = startTask st0;
             w1 = updateState (\<lambda>s. s\<lparr>status := tuning_design,
                    executionPlan := [task ''plan-generation''
                                        ''Instruction analysis and process decision'' running],
                    currentDetail := Some ''Breaking the request down into requirements...''\<rparr>) w0
         in case tuneTry svc cancelAt tgt st0 w1 of
              (ex, w) \<Rightarrow> (ex, updateState (cleared ready) w)))"

subsection \<open>Import\<close>

definition importCatch :: "error \<Rightarrow> world \<Rightarrow> exit \<times> world" where
  "importCatch e w =
     (if isAbortError e then (Cancelled, w) else (Failed e, updateState (cleared idle) w))"

fun restorePages ::
  "services \<Rightarrow> nat option \<Rightarrow> GitHubFileNode list \<Rightarrow> GitHubFileNode option \<Rightarrow> HubPage list
     \<Rightarrow> HubPage list \<Rightarrow> world \<Rightarrow> HubPage list ctl \<times> world" where
  "restorePages svc cancelAt htmlFiles indexFile [] finalHubs w = (Done finalHubs, w)"
| "restorePages svc cancelAt htmlFiles indexFile (h # hs) finalHubs w =
     (case (case find (\<lambda>f. includesStr (node_path f) (hub_slug h @ ''/index.html'')) htmlFiles of
              Some f \<Rightarrow> Some f
            | None \<Rightarrow> (if hub_slug h = ''index'' then indexFile else None)) of
        Some matchingFile \<Rightarrow>
          (let w1 = updateState (\<lambda>s. s\<lparr>currentDetail := Some (''Fetching: '' @ hub_slug h)\<rparr>) w;
               w2 = remoteCall cancelAt (FetchFileContent (node_url matchingFile)) w1
           in case svc_fetchFileContent svc (length (issued w1)) of
                Inl e \<Rightarrow> (Throw e, w2)
              | Inr content \<Rightarrow>
                  restorePages svc cancelAt htmlFiles indexFile hs
                    (finalHubs @ [h\<lparr>hub_html := Some content\<rparr>]) w2)
      | None \<Rightarrow> restorePages svc cancelAt htmlFiles indexFile hs (finalHubs @ [h]) w)"

definition handleImport ::
  "services \<Rightarrow> nat option \<Rightarrow> string \<Rightarrow> string \<Rightarrow> ProjectState \<Rightarrow> exit \<times> world" where
  "handleImport svc cancelAt importRepo importToken st0 =
     (if importRepo = [] \<or> importToken = [] then (NotStarted, startTask st0)
      else
        (let w0 = startTask st0;
             w1 = updateState (\<lambda>s. s\<lparr>status := importing,
                    executionPlan :=
                      [task ''fetch-info'' ''Repository information check'' running,
                       task ''fetch-tree'' ''Directory structure scan'' pending,
                       task ''fetch-content'' ''Main resource fetch'' pending,
                       task ''analyze-brand'' ''Brand identity analysis'' pending,
                       task ''analyze-structure'' ''Content structure analysis'' pending,
                       groupTask ''fetch-full-content'' ''Restore all pages'' pending
                         ''import-restore'' ''Fetch of all pages from GitHub''],
                    currentDetail := Some ''Connecting to GitHub...''\<rparr>) w0;
             config0 = \<lparr>token = importToken, repo = importRepo, branch = ''main'', path = ''docs''\<rparr>;
             w2 = remoteCall cancelAt FetchRepoDetails w1
         in case svc_fetchRepoDetails svc (length (issued w1)) of
              Inl e \<Rightarrow> importCatch e w2
            | Inr details \<Rightarrow>
               (let config = (case details of None \<Rightarrow> config0
                              | Some d \<Rightarrow> config0\<lparr>branch := default_branch d\<rparr>);
                    w3 = updateState (setTaskStatus ''fetch-info'' completed) w2;
                    w4 = updateState (setTaskStatus ''fetch-tree'' running) w3;
                    w5 = remoteCall cancelAt FetchRepoStructure w4
                in case svc_fetchRepoStructure svc (length (issued w4)) of
                     Inl e \<Rightarrow> importCatch e w5
                   | Inr nodes \<Rightarrow>
                      (let htmlFiles = filter (\<lambda>f. endsWith (node_path f) ''.html'') nodes;
                           w6 = updateState (setTaskStatus ''fetch-tree'' completed) w5;
                           w7 = updateState (setTaskStatus ''fetch-content'' running) w6;
                           indexFile = find (\<lambda>f. endsWith (node_path f) ''index.html'') htmlFiles
                       in case (case indexFile of
                                  None \<Rightarrow> (Inr [], w7)
                                | Some f \<Rightarrow> (svc_fetchFileContent svc (length (issued w7)),
                                             remoteCall cancelAt (FetchFileContent (node_url f)) w7)) of
                            (Inl e, w8) \<Rightarrow> importCatch e w8
                          | (Inr indexHtml, w8) \<Rightarrow>
                             (let w9 = updateState (setTaskStatus ''fetch-content'' completed) w8;
                                  w10 = updateState (setTaskStatus ''analyze-brand'' running) w9;
                                  w11 = remoteCall cancelAt AnalyzeSiteIdentityAgent w10
                              in case svc_analyzeSiteIdentityAgent svc (length (issued w10)) of
                                   Inl e \<Rightarrow> importCatch e w11
                                 | Inr ident \<Rightarrow>
                                    (let w12 = updateState (setTaskStatus ''analyze-brand'' completed) w11;
                                         w13 = updateState (setTaskStatus ''analyze-structure'' running) w12;
                                         w14 = remoteCall cancelAt AnalyzeRepoStructureAgent w13
                                     in case svc_analyzeRepoStructureAgent svc (length (issued w13)) of
                                          Inl e \<Rightarrow> importCatch e w14
                                        | Inr (hubs0, articles0) \<Rightarrow>
                                           (let w15 = updateState (setTaskStatus ''analyze-structure'' completed) w14;
                                                w16 = updateState (setTaskStatus ''fetch-full-content'' running) w15
                                            in case restorePages svc cancelAt htmlFiles indexFile hubs0 [] w16 of
                                                 (Throw e, w17) \<Rightarrow> importCatch e w17
                                               | (Return, w17) \<Rightarrow> (Cancelled, w17)
                                               | (Done finalHubs, w17) \<Rightarrow>
                                                  (let w18 = updateState (setTaskStatus ''fetch-full-content'' completed) w17
                                                   in (Succeeded,
                                                       updateState (\<lambda>s. s\<lparr>identity := Some ident,
                                                         githubConfig := config, status := ready,
                                                         hubs := finalHubs, articles := articles0,
                                                         executionPlan := [], currentDetail := None\<rparr>) w18)))))))))"

subsection \<open>Publish\<close>

text \<open>The files \<^verbatim>\<open>publishToGithub\<close> uploads, as pairs of path and content, in order.\<close>

definition publishFiles :: "HubPage list \<Rightarrow> Article list \<Rightarrow> string \<Rightarrow> (string \<times> string) list" where
  "publishFiles hs as readme =
     map (\<lambda>h. (if hub_slug h = ''index'' then ''index.html'' else hub_slug h @ ''/index.html'',
                case hub_html h of None \<Rightarrow> [] | Some x \<Rightarrow> x)) hs
     @ map (\<lambda>a. (case find (\<lambda>h. hub_id h = article_hubId a) hs of
                    None \<Rightarrow> ''articles/'' @ article_slug a @ ''.html''
                  | Some parentHub \<Rightarrow>
                      if hub_slug parentHub \<noteq> ''index''
                      then hub_slug parentHub @ ''/'' @ article_slug a @ ''.html''
                      else ''articles/'' @ article_slug a @ ''.html'',
                  case article_contentHtml a of None \<Rightarrow> [] | Some x \<Rightarrow> x)) as
     @ (if readme \<noteq> [] then [(''README.md'', readme)] else [])"

text \<open>
  What the upload loop throws on a write request that is answered but not \<^verbatim>\<open>ok\<close>:
  the \<^verbatim>\<open>Error\<close> it builds, or the \<^verbatim>\<open>TypeError\<close> of reading \<^verbatim>\<open>error.message\<close> on a
  body that is \<^verbatim>\<open>null\<close>.
\<close>

definition sendFailed :: "string \<Rightarrow> Response \<Rightarrow> error" where
  "sendFailed filePath res =
     (case errorMessage res of
        Inl e \<Rightarrow> e
      | Inr m \<Rightarrow> Error (filePath @ '' send failed ('' @ string_of_nat (res_status res) @ ''): '' @ m))"

text \<open>
  The upload loop of \<^verbatim>\<open>publishToGithub\<close>; \<^verbatim>\<open>onProgress\<close> is the callback that
  \<^verbatim>\<open>handlePublish\<close> passes, an update of the progress detail.
\<close>

fun pushFiles ::
  "services \<Rightarrow> nat option \<Rightarrow> (string \<times> string) list \<Rightarrow> world \<Rightarrow> unit ctl \<times> world" where
  "pushFiles svc cancelAt [] w = (Done (), w)"
| "pushFiles svc cancelAt (file # files) w =
     (if aborted w then (Throw githubAbort, w)
      else
        (let w1 = updateState (\<lambda>s. s\<lparr>currentDetail := Some (''Sending: '' @ fst file)\<rparr>) w;
             w2 = remoteCall cancelAt (GetContents (fst file)) w1;
             w3 = remoteCall cancelAt (PutContents (fst file)) w2
         in case svc_putContents svc (length (issued w2)) of
              Inl e \<Rightarrow> (Throw e, w3)
            | Inr res \<Rightarrow>
                if \<not> ok res
                then (Throw (sendFailed (fst file) res), w3)
                else pushFiles svc cancelAt files w3))"

definition publishCatch :: "error \<Rightarrow> world \<Rightarrow> exit \<times> world" where
  "publishCatch e w =
     (if isAbortError e then (Cancelled, w) else (Failed e, updateState (cleared ready) w))"

definition handlePublish :: "services \<Rightarrow> nat option \<Rightarrow> ProjectState \<Rightarrow> exit \<times> world" where
  "handlePublish svc cancelAt st0 =
     (if repo (githubConfig st0) = [] \<or> token (githubConfig st0) = [] then (NotStarted, startTask st0)
      else
        (let w0 = startTask st0;
             w1 = updateState (\<lambda>s. s\<lparr>status := creating_repo,
                    executionPlan :=
                      [task ''check-repo'' ''Repository information check'' running,
                       groupTask ''push-files'' ''Push files'' pending
                         ''push-group'' ''Upload of all files'',
                       task ''enable-pages'' ''Enable GitHub Pages'' pending]\<rparr>) w0;
             w2 = remoteCall cancelAt FetchRepoDetails w1
         in case svc_fetchRepoDetails svc (length (issued w1)) of
              Inl e \<Rightarrow> publishCatch e w2
            | Inr details \<Rightarrow>
               (case (case details of
                        Some d \<Rightarrow> (Inr (), w2)
                      | None \<Rightarrow> (svc_createRepository svc (length (issued w2)),
                                 remoteCall cancelAt CreateRepository w2)) of
                  (Inl e, w3) \<Rightarrow> publishCatch e w3
                | (Inr u, w3) \<Rightarrow>
                   (let w4 = updateState (setTaskStatus ''check-repo'' completed) w3;
                        w5 = updateState (setTaskStatus ''push-files'' running) w4;
                        w6 = remoteCall cancelAt GenerateReadmeAgent w5
                    in case svc_generateReadmeAgent svc (length (issued w5)) of
                         Inl e \<Rightarrow> publishCatch e w6
                       | Inr readme \<Rightarrow>
                          (case pushFiles svc cancelAt
                                  (publishFiles (hubs st0) (articles st0) readme) w6 of
                             (Throw e, w7) \<Rightarrow> publishCatch e w7
                           | (Return, w7) \<Rightarrow> (Cancelled, w7)
                           | (Done u, w7) \<Rightarrow>
                              (let w8 = updateState (setTaskStatus ''push-files'' completed) w7;
                                   w9 = updateState (setTaskStatus ''enable-pages'' running) w8;
                                   w10 = remoteCall cancelAt EnablePages w9
                               in case svc_enablePages svc (length (issued w9)) of
                                    Inl e \<Rightarrow> publishCatch e w10
                                  | Inr u \<Rightarrow>
                                     (let w11 = updateState (setTaskStatus ''enable-pages'' completed) w10
                                      in (Succeeded, updateState (cleared deployed) w11))))))))"

section \<open>Example data\<close>

text \<open>Concrete states, services and operations on which the statements below are run.\<close>

definition initialState :: ProjectState where
  "initialState =
     \<lparr>opinion = ''Technology should extend human creativity.'', siteType = Personal,
      identity = None, hubs = [], articles = [], gtmId = [], adsenseId = [],
      strategyRationale = None, status = idle, executionPlan = [], currentDetail = None,
      githubConfig = \<lparr>token = [], repo = [], branch = ''main'', path = ''docs''\<rparr>\<rparr>"

definition importingState :: ProjectState where
  "importingState = initialState\<lparr>status := importing,
     executionPlan := [task ''fetch-info'' ''Repository information check'' completed,
                       task ''fetch-tree'' ''Directory structure scan'' pending,
                       task ''fetch-content'' ''Main resource fetch'' pending]\<rparr>"

definition modelOverloaded :: error where
  "modelOverloaded = Error ''The model is overloaded''"

definition badRequest :: error where
  "badRequest = Error ''400 Bad Request''"

definition notJson :: error where
  "notJson = \<lparr>err_name = ''SyntaxError'', err_message = Some ''Unexpected end of JSON input'',
               err_status = None\<rparr>"

definition serverError :: Response where
  "serverError = \<lparr>res_status = 500, res_json = Inl notJson\<rparr>"

definition notFound :: Response where
  "notFound = \<lparr>res_status = 404, res_json = Inr (JObject [(''message'', JString ''Not Found'')])\<rparr>"

definition forbiddenNull :: Response where
  "forbiddenNull = \<lparr>res_status = 403, res_json = Inr JNull\<rparr>"

definition refusing :: services where
  "refusing =
     \<lparr>svc_generateIdentityAgent = (\<lambda>k. Inl badRequest),
      svc_generateStrategyAgent = (\<lambda>k. Inl badRequest),
      svc_generateHtmlAgent = (\<lambda>k. Inl badRequest),
      svc_generateTunePlanAgent = (\<lambda>k. Inl badRequest),
      svc_tunePageDesignAgent = (\<lambda>k. Inl badRequest),
      svc_generateReadmeAgent = (\<lambda>k. Inl badRequest),
      svc_analyzeSiteIdentityAgent = (\<lambda>k. Inl badRequest),
      svc_analyzeRepoStructureAgent = (\<lambda>k. Inl badRequest),
      svc_fetchRepoDetails = (\<lambda>k. Inl badRequest),
      svc_createRepository = (\<lambda>k. Inl badRequest),
      svc_fetchRepoStructure = (\<lambda>k. Inl badRequest),
      svc_fetchFileContent = (\<lambda>k. Inl badRequest),
      svc_putContents = (\<lambda>k. Inl badRequest),
      svc_enablePages = (\<lambda>k. Inl badRequest)\<rparr>"

definition acme :: Identity where
  "acme = \<lparr>siteName = ''Acme'', identity_slug = ''acme'', mission = ''Make things'',
            brandDescription = ''A maker of things'', themeColor = ''#4f46e5'',
            tone = Some Minimal\<rparr>"

definition page :: "string \<Rightarrow> string option \<Rightarrow> HubPage" where
  "page name markup = \<lparr>hub_id = name, hub_title = name, hub_slug = name,
                         hub_description = [], hub_html = markup\<rparr>"

definition builtState :: ProjectState where
  "builtState = initialState\<lparr>identity := Some acme, status := ready,
     hubs := [page ''about'' (Some ''<p>about</p>''), page ''works'' (Some ''<p>works</p>'')],
     githubConfig := \<lparr>token = ''t0ken'', repo = ''owner/site'', branch = ''main'', path = ''docs''\<rparr>\<rparr>"

definition created :: Response where
  "created = \<lparr>res_status = 201, res_json = Inr (JObject [(''content'', JObject [])])\<rparr>"

definition cooperative :: services where
  "cooperative =
     \<lparr>svc_generateIdentityAgent = (\<lambda>k. Inr acme),
      svc_generateStrategyAgent = (\<lambda>k. Inr ([page ''about'' None, page ''works'' None,
                                               page ''contact'' None], ''Three sections'')),
      svc_generateHtmlAgent = (\<lambda>k. Inr ''<html></html>''),
      svc_generateTunePlanAgent = (\<lambda>k. Inr (''plan'', [''darken''])),
      svc_tunePageDesignAgent = (\<lambda>k. Inr ''<p>dark</p>''),
      svc_generateReadmeAgent = (\<lambda>k. Inr ''# Acme''),
      svc_analyzeSiteIdentityAgent = (\<lambda>k. Inr acme),
      svc_analyzeRepoStructureAgent = (\<lambda>k. Inr ([page ''about'' None], [])),
      svc_fetchRepoDetails = (\<lambda>k. Inr None),
      svc_createRepository = (\<lambda>k. Inr ()),
      svc_fetchRepoStructure = (\<lambda>k. Inr [\<lparr>node_path = ''docs/about/index.html'',
                                               node_type = blobNode, node_sha = ''0a'',
                                               node_url = ''https://api.github.com/blob/0a''\<rparr>]),
      svc_fetchFileContent = (\<lambda>k. Inr ''<p>about</p>''),
      svc_putContents = (\<lambda>k. Inr created),
      svc_enablePages = (\<lambda>k. Inr ())\<rparr>"

text \<open>The services \<open>svc\<close>, except that every call numbered \<open>k\<close> is rejected as aborted.\<close>

definition abortingAt :: "nat \<Rightarrow> services \<Rightarrow> services" where
  "abortingAt k svc =
     \<lparr>svc_generateIdentityAgent = (\<lambda>j. if j = k then Inl userAbort else svc_generateIdentityAgent svc j),
      svc_generateStrategyAgent = (\<lambda>j. if j = k then Inl userAbort else svc_generateStrategyAgent svc j),
      svc_generateHtmlAgent = (\<lambda>j. if j = k then Inl userAbort else svc_generateHtmlAgent svc j),
      svc_generateTunePlanAgent = (\<lambda>j. if j = k then Inl userAbort else svc_generateTunePlanAgent svc j),
      svc_tunePageDesignAgent = (\<lambda>j. if j = k then Inl userAbort else svc_tunePageDesignAgent svc j),
      svc_generateReadmeAgent = (\<lambda>j. if j = k then Inl userAbort else svc_generateReadmeAgent svc j),
      svc_analyzeSiteIdentityAgent = (\<lambda>j. if j = k then Inl userAbort else svc_analyzeSiteIdentityAgent svc j),
      svc_analyzeRepoStructureAgent = (\<lambda>j. if j = k then Inl userAbort else svc_analyzeRepoStructureAgent svc j),
      svc_fetchRepoDetails = (\<lambda>j. if j = k then Inl githubAbort else svc_fetchRepoDetails svc j),
      svc_createRepository = (\<lambda>j. if j = k then Inl githubAbort else svc_createRepository svc j),
      svc_fetchRepoStructure = (\<lambda>j. if j = k then Inl githubAbort else svc_fetchRepoStructure svc j),
      svc_fetchFileContent = (\<lambda>j. if j = k then Inl githubAbort else svc_fetchFileContent svc j),
      svc_putContents = (\<lambda>j. if j = k then Inl githubAbort else svc_putContents svc j),
      svc_enablePages = (\<lambda>j. if j = k then Inl githubAbort else svc_enablePages svc j)\<rparr>"

section \<open>Task ledger: frame of a status transition\<close>

lemma setTaskStatus_ids:
  "map task_id (map (\<lambda>t. if task_id t = i then t\<lparr>task_status := s\<rparr> else t) xs) = map task_id xs"
  for xs :: "ExecutionTask list"
  by (induction xs) auto

lemma setTaskStatus_absent:
  "i \<notin> set (map task_id xs) \<Longrightarrow>
     map (\<lambda>t. if task_id t = i then t\<lparr>task_status := s\<rparr> else t) xs = xs"
  for xs :: "ExecutionTask list"
  by (induction xs) auto

lemma setTaskStatus_unique:
  "distinct (map task_id xs) \<Longrightarrow> k < length xs \<Longrightarrow> task_id (xs ! k) = i \<Longrightarrow>
     map (\<lambda>t. if task_id t = i then t\<lparr>task_status := s\<rparr> else t) xs
       = xs[k := (xs ! k)\<lparr>task_status := s\<rparr>]"
  for xs :: "ExecutionTask list"
proof (induction xs arbitrary: k)
  case Nil
  then show ?case by simp
next
  case (Cons x xs)
  show ?case
  proof (cases k)
    case 0
    with Cons.prems have "i \<notin> set (map task_id xs)" by auto
    with 0 Cons.prems setTaskStatus_absent[of i xs s] show ?thesis by simp
  next
    case (Suc j)
    with Cons.prems have "task_id x \<noteq> i" by force
    with Suc Cons show ?thesis by simp
  qed
qed

text \<open>
  Claim C9. For every ledger and every call \<open>setTaskStatus i s\<close>: the ledger keeps
  its length and the order of its task ids; if no task has the id \<open>i\<close> the state is
  unchanged; a task with another id is unchanged, a task with the id \<open>i\<close> changes
  in its status field only; with distinct ids exactly the one position holding
  \<open>i\<close> is replaced; and no other field of the project state changes.
\<close>

theorem setTaskStatus_frame:
  "length (executionPlan (setTaskStatus i s st)) = length (executionPlan st)
   \<and> map task_id (executionPlan (setTaskStatus i s st)) = map task_id (executionPlan st)
   \<and> (i \<notin> set (map task_id (executionPlan st)) \<longrightarrow> setTaskStatus i s st = st)
   \<and> (\<forall>k < length (executionPlan st).
        (task_id (executionPlan st ! k) \<noteq> i \<longrightarrow>
           executionPlan (setTaskStatus i s st) ! k = executionPlan st ! k)
      \<and> (task_id (executionPlan st ! k) = i \<longrightarrow>
           executionPlan (setTaskStatus i s st) ! k = (executionPlan st ! k)\<lparr>task_status := s\<rparr>))
   \<and> (\<forall>k < length (executionPlan st).
        distinct (map task_id (executionPlan st)) \<and> task_id (executionPlan st ! k) = i \<longrightarrow>
          executionPlan (setTaskStatus i s st)
            = (executionPlan st)[k := (executionPlan st ! k)\<lparr>task_status := s\<rparr>])
   \<and> (setTaskStatus i s st)\<lparr>executionPlan := executionPlan st\<rparr> = st"
  unfolding setTaskStatus_def
  using setTaskStatus_ids[of i s "executionPlan st"] setTaskStatus_absent[of i "executionPlan st" s]
    setTaskStatus_unique[of "executionPlan st" _ i s]
  by simp

theorem setTaskStatus_frame_witness:
  "setTaskStatus ''unknown'' running importingState = importingState
   \<and> executionPlan (setTaskStatus ''fetch-tree'' running importingState)
       = (executionPlan importingState)
           [1 := (executionPlan importingState ! 1)\<lparr>task_status := running\<rparr>]
   \<and> executionPlan (setTaskStatus ''fetch-tree'' running importingState) ! 0
       = executionPlan importingState ! 0"
proof -
  have absent: "''unknown'' \<notin> set (map task_id (executionPlan importingState))"
    by (simp add: importingState_def initialState_def task_def)
  have len: "(0::nat) < length (executionPlan importingState)"
    "(1::nat) < length (executionPlan importingState)"
    by (simp_all add: importingState_def initialState_def task_def)
  have uniq: "distinct (map task_id (executionPlan importingState))
      \<and> task_id (executionPlan importingState ! 1) = ''fetch-tree''"
    by (simp add: importingState_def initialState_def task_def)
  have other: "task_id (executionPlan importingState ! 0) \<noteq> ''fetch-tree''"
    by (simp add: importingState_def initialState_def task_def)
  from setTaskStatus_frame[of "''unknown''" running importingState] absent
  have a: "setTaskStatus ''unknown'' running importingState = importingState" by blast
  from setTaskStatus_frame[of "''fetch-tree''" running importingState] len uniq other
  have b: "executionPlan (setTaskStatus ''fetch-tree'' running importingState)
       = (executionPlan importingState)
           [1 := (executionPlan importingState ! 1)\<lparr>task_status := running\<rparr>]"
    and c: "executionPlan (setTaskStatus ''fetch-tree'' running importingState) ! 0
       = executionPlan importingState ! 0"
    by blast+
  from a b c show ?thesis by blast
qed

section \<open>Workflow definition table: steps per status\<close>

lemmas workflow_defs =
  getCurrentWorkflowInfo_def stepsContaining_def WORKFLOWS_def
  wf_build_def wf_deploy_def wf_import_def wf_tune_def

text \<open>
  Claim C6, as stated: every status is listed by at most one step of the table.
  The status \<open>tuning_design\<close> is listed by both steps of the tune workflow.
\<close>

theorem workflow_table_not_partitioned:
  "stepsContaining WORKFLOWS tuning_design = [(wf_tune, 0), (wf_tune, 1)]
   \<and> \<not> (\<forall>s. length (stepsContaining WORKFLOWS s) \<le> 1)"
proof -
  have two: "stepsContaining WORKFLOWS tuning_design = [(wf_tune, 0), (wf_tune, 1)]"
    by (simp add: workflow_defs)
  moreover have "\<not> (\<forall>s. length (stepsContaining WORKFLOWS s) \<le> 1)"
  proof
    assume "\<forall>s. length (stepsContaining WORKFLOWS s) \<le> 1"
    then have "length (stepsContaining WORKFLOWS tuning_design) \<le> 1" by blast
    with two show False by simp
  qed
  ultimately show ?thesis by blast
qed

text \<open>
  Claim C6, amended. Every status other than \<open>tuning_design\<close> is listed by at most
  one step of the table; \<open>idle\<close> is listed by none; and for every status
  \<open>getCurrentWorkflowInfo\<close> returns the first listing step in table order, if any
  (for \<open>tuning_design\<close> the planning step, index 0, of the tune workflow).
\<close>

theorem workflow_lookup_first_match:
  "(\<forall>s. s \<noteq> tuning_design \<longrightarrow> length (stepsContaining WORKFLOWS s) \<le> 1)
   \<and> stepsContaining WORKFLOWS idle = []
   \<and> (\<forall>s. getCurrentWorkflowInfo s
            = (case stepsContaining WORKFLOWS s of [] \<Rightarrow> None | m # ms \<Rightarrow> Some m))
   \<and> getCurrentWorkflowInfo tuning_design = Some (wf_tune, 0)"
proof -
  have one: "s \<noteq> tuning_design \<longrightarrow> length (stepsContaining WORKFLOWS s) \<le> 1" for s
    by (cases s) (simp_all add: workflow_defs)
  have first: "getCurrentWorkflowInfo s
      = (case stepsContaining WORKFLOWS s of [] \<Rightarrow> None | m # ms \<Rightarrow> Some m)" for s
    by (cases s) (simp_all add: workflow_defs)
  have none: "stepsContaining WORKFLOWS idle = []"
    by (simp add: workflow_defs)
  have tune: "getCurrentWorkflowInfo tuning_design = Some (wf_tune, 0)"
    by (simp add: workflow_defs)
  from one first none tune show ?thesis by blast
qed

theorem workflow_lookup_first_match_witness:
  "deployed \<noteq> tuning_design \<and> length (stepsContaining WORKFLOWS deployed) \<le> 1
   \<and> getCurrentWorkflowInfo deployed = Some (wf_deploy, 2)"
proof -
  have ne: "deployed \<noteq> tuning_design" by simp
  have steps: "stepsContaining WORKFLOWS deployed = [(wf_deploy, 2)]"
    by (simp add: workflow_defs)
  from workflow_lookup_first_match ne
  have "length (stepsContaining WORKFLOWS deployed) \<le> 1"
    and "getCurrentWorkflowInfo deployed
      = (case stepsContaining WORKFLOWS deployed of [] \<Rightarrow> None | m # ms \<Rightarrow> Some m)"
    by blast+
  with ne steps show ?thesis by simp
qed

section \<open>Retry policies\<close>

lemma not_aborted_None [simp]: "\<not> aborted_at None t"
  by (simp add: aborted_at_def)

text \<open>
  The delays of the two policies as the call sites set them are exact in doubles.
  In general a product by \<^verbatim>\<open>1.5\<close> is rounded: from the double nearest to \<open>0.1\<close> the
  loop goes on to \<open>0.15000000000000002\<close>, which is not its \<open>3/2\<close>-fold.
\<close>

lemma default_delays:
  "times1_5 (Double 2000) = Double 3000"
  "times1_5 (Double 3000) = Double 4500"
  "times1_5 (Double 4500) = Double 6750"
  by code_simp+

lemma hosting_delays:
  "roundDouble 1000 = Double 1000"
  "roundDouble 2000 = Double 2000"
  by code_simp+

lemma rounded_delay:
  "times1_5 (Double (3602879701896397 / 36028797018963968))
     = Double (1351079888211149 / 9007199254740992)
   \<and> (3602879701896397 / 36028797018963968) * (3 / 2) \<noteq> (1351079888211149 / 9007199254740992 :: rat)"
  by code_simp

lemma default_backoff:
  "map (\<lambda>n. (times1_5 ^^ n) (Double 2000)) [0..<4]
     = [Double 2000, Double 3000, Double 4500, Double 6750]"
proof -
  have upt: "[0..<4] = [0, 1, 2, Suc 2]"
    by (simp add: upt_rec)
  show ?thesis
    by (simp add: upt numeral_2_eq_2 default_delays)
qed

lemma backoff_delays_Suc:
  "map (\<lambda>n. (times1_5 ^^ n) d) [0..<Suc m] = d # map (\<lambda>n. (times1_5 ^^ n) (times1_5 d)) [0..<m]"
proof -
  have "[0..<Suc m] = 0 # map Suc [0..<m]"
    by (simp only: upt_conv_Cons[OF zero_less_Suc] map_Suc_upt)
  then show ?thesis
    by (simp add: comp_def funpow_swap1 del: upt_Suc)
qed

lemma retryLoop_skip:
  assumes "i \<le> k" and "k < maxRetries"
    and "\<forall>j. i \<le> j \<and> j < k \<longrightarrow> (\<exists>e. operation j = Inl e \<and> isRetryable e)"
    and "\<forall>t < 2 * k. \<not> aborted_at signal t"
  shows "retryLoop operation maxRetries signal i d =
     (let r = retryLoop operation maxRetries signal k ((times1_5 ^^ (k - i)) d)
      in r\<lparr>invocations := (k - i) + invocations r,
           waits := map (\<lambda>n. (times1_5 ^^ n) d) [0..<k - i] @ waits r\<rparr>)"
  using assms
proof (induction "k - i" arbitrary: i d)
  case 0
  then have "i = k" by simp
  then show ?case by (simp add: Let_def)
next
  case (Suc m)
  then have ik: "i < k" and m: "m = k - (i + 1)" and le: "i + 1 \<le> k" by simp_all
  from Suc.prems ik obtain e where e: "operation i = Inl e" "isRetryable e" by blast
  from ik Suc.prems have na: "\<not> aborted_at signal (2 * i)" "\<not> aborted_at signal (2 * i + 1)"
    by simp_all
  from ik Suc.prems have notlast: "i \<noteq> maxRetries - 1" "i < maxRetries" by simp_all
  have rest: "\<forall>j. i + 1 \<le> j \<and> j < k \<longrightarrow> (\<exists>e. operation j = Inl e \<and> isRetryable e)"
    using Suc.prems by simp
  have IH: "retryLoop operation maxRetries signal (i + 1) (times1_5 d) =
     (let r = retryLoop operation maxRetries signal k ((times1_5 ^^ (k - (i + 1))) (times1_5 d))
      in r\<lparr>invocations := (k - (i + 1)) + invocations r,
           waits := map (\<lambda>n. (times1_5 ^^ n) (times1_5 d)) [0..<k - (i + 1)] @ waits r\<rparr>)"
    using Suc.hyps(1)[OF m le Suc.prems(2) rest Suc.prems(4)] .
  have ki: "k - i = Suc (k - (i + 1))" using ik by simp
  have pow: "(times1_5 ^^ (k - (i + 1))) (times1_5 d) = (times1_5 ^^ (k - i)) d"
    by (subst ki) (simp add: funpow_swap1)
  show ?case
    apply (subst retryLoop.simps)
    apply (simp only: IH pow)
    apply (subst (3) ki)
    apply (simp only: backoff_delays_Suc)
    using e na notlast ik by (simp add: Let_def)
qed

lemma retryLoop_prefix:
  assumes "k < maxRetries"
    and "\<forall>j < k. \<exists>e. operation j = Inl e \<and> isRetryable e"
    and "\<forall>t < 2 * k. \<not> aborted_at signal t"
  shows "retryLoop operation maxRetries signal 0 d =
     (let r = retryLoop operation maxRetries signal k ((times1_5 ^^ k) d)
      in r\<lparr>invocations := k + invocations r,
           waits := map (\<lambda>n. (times1_5 ^^ n) d) [0..<k] @ waits r\<rparr>)"
  using retryLoop_skip[of 0 k maxRetries operation signal d] assms by simp

lemma isRetryable_modelOverloaded: "isRetryable modelOverloaded"
  by (simp add: isRetryable_def modelOverloaded_def Error_def)

lemma retryWithBackoff_exhausted_general:
  assumes "apiKey \<noteq> []" and "0 < maxRetries"
    and "\<forall>j < maxRetries. \<exists>e. operation j = Inl e \<and> isRetryable e"
  shows "retryWithBackoff apiKey operation maxRetries initialDelay None =
     \<lparr>outcome = operation (maxRetries - 1), invocations = maxRetries,
      waits = map (\<lambda>n. (times1_5 ^^ n) initialDelay) [0..<maxRetries - 1]\<rparr>
     \<and> (\<exists>e. operation (maxRetries - 1) = Inl e)"
proof -
  from assms(2) have lt: "maxRetries - 1 < maxRetries" by simp
  with assms(3) obtain e where e: "operation (maxRetries - 1) = Inl e" by blast
  have last: "retryLoop operation maxRetries None (maxRetries - 1) d' =
      \<lparr>outcome = Inl e, invocations = 1, waits = []\<rparr>" for d'
    using assms(2) e by (subst retryLoop.simps) simp
  have skip: "retryLoop operation maxRetries None 0 initialDelay =
     (let r = retryLoop operation maxRetries None (maxRetries - 1)
                ((times1_5 ^^ (maxRetries - 1)) initialDelay)
      in r\<lparr>invocations := (maxRetries - 1) + invocations r,
           waits := map (\<lambda>n. (times1_5 ^^ n) initialDelay) [0..<maxRetries - 1] @ waits r\<rparr>)"
    by (rule retryLoop_prefix) (use assms lt in auto)
  show ?thesis
    unfolding retryWithBackoff_def skip last Let_def using assms(1,2) e by simp
qed

lemma retryWithBackoff_settles:
  assumes "apiKey \<noteq> []" and "k < maxRetries"
    and "\<forall>j < k. \<exists>e. operation j = Inl e \<and> isRetryable e"
    and "operation k = Inr v"
  shows "retryWithBackoff apiKey operation maxRetries initialDelay None =
     \<lparr>outcome = Inr v, invocations = k + 1,
      waits = map (\<lambda>n. (times1_5 ^^ n) initialDelay) [0..<k]\<rparr>"
proof -
  have quiet: "\<forall>t < 2 * k. \<not> aborted_at None t" by simp
  have at_k: "retryLoop operation maxRetries None k d' =
      \<lparr>outcome = Inr v, invocations = 1, waits = []\<rparr>" for d'
    using assms(2,4) by (subst retryLoop.simps) simp
  show ?thesis
    unfolding retryWithBackoff_def retryLoop_prefix[OF assms(2,3) quiet] at_k Let_def
    using assms(1) by simp
qed

lemma retryWithBackoff_interrupted:
  assumes "apiKey \<noteq> []" and "k < maxRetries"
    and "\<forall>j < k. \<exists>e'. operation j = Inl e' \<and> isRetryable e'"
    and "operation k = Inl e"
  shows "retryWithBackoff apiKey operation maxRetries initialDelay (Some (2 * k + 1))
      = \<lparr>outcome = Inl userAbort, invocations = k + 1,
         waits = map (\<lambda>n. (times1_5 ^^ n) initialDelay) [0..<k]\<rparr>"
proof -
  have quiet: "\<forall>t < 2 * k. \<not> aborted_at (Some (2 * k + 1)) t"
    by (simp add: aborted_at_def)
  have at_k: "retryLoop operation maxRetries (Some (2 * k + 1)) k d'
      = \<lparr>outcome = Inl userAbort, invocations = 1, waits = []\<rparr>" for d'
    using assms(2,4) by (subst retryLoop.simps) (simp add: aborted_at_def)
  show ?thesis
    unfolding retryWithBackoff_def retryLoop_prefix[OF assms(2,3) quiet] at_k Let_def
    using assms(1) by simp
qed

lemma fetchWithRetry_three_failures:
  assumes "\<forall>j < 3. \<exists>e. tryFetch (fetch j) = Inl e \<and> err_name e \<noteq> ''AbortError''"
  shows "\<exists>e. tryFetch (fetch 2) = Inl e
     \<and> fetchWithRetry fetch 3 None
         = \<lparr>outcome = Inl (throwLast (Some e)), invocations = 3,
            waits = [Double 1000, Double 2000]\<rparr>"
proof -
  have lt: "(0::nat) < 3" "(1::nat) < 3" "(2::nat) < 3" by simp_all
  from assms[rule_format, OF lt(1)]
  obtain e0 where e0: "tryFetch (fetch 0) = Inl e0" "err_name e0 \<noteq> ''AbortError''" by blast
  from assms[rule_format, OF lt(2)]
  obtain e1 where e1: "tryFetch (fetch 1) = Inl e1" "err_name e1 \<noteq> ''AbortError''" by blast
  from assms[rule_format, OF lt(3)]
  obtain e2 where e2: "tryFetch (fetch 2) = Inl e2" "err_name e2 \<noteq> ''AbortError''" by blast
  have "fetchWithRetry fetch 3 None
      = \<lparr>outcome = Inl (throwLast (Some e2)), invocations = 3,
         waits = [Double 1000, Double 2000]\<rparr>"
    using e0 e1 e2
    by (simp add: fetchWithRetry_def fetchLoop.simps Let_def numeral_2_eq_2 hosting_delays)
  with e2 show ?thesis by blast
qed

lemma fetchWithRetry_delivers:
  assumes "k < 3"
    and "\<forall>j < k. \<exists>e. tryFetch (fetch j) = Inl e \<and> err_name e \<noteq> ''AbortError''"
    and "tryFetch (fetch k) = Inr res"
  shows "fetchWithRetry fetch 3 None
     = \<lparr>outcome = Inr res, invocations = k + 1,
        waits = take k [Double 1000, Double 2000]\<rparr>"
proof -
  from assms(1) consider "k = 0" | "k = 1" | "k = 2" by linarith
  then show ?thesis
  proof cases
    case 1
    with assms(3) show ?thesis
      by (simp add: fetchWithRetry_def fetchLoop.simps)
  next
    case 2
    have "(0::nat) < 1" by simp
    from assms(2)[unfolded 2, rule_format, OF this]
    obtain e0 where "tryFetch (fetch 0) = Inl e0" "err_name e0 \<noteq> ''AbortError''" by blast
    with 2 assms(3) show ?thesis
      by (simp add: fetchWithRetry_def fetchLoop.simps Let_def hosting_delays)
  next
    case 3
    have lt: "(0::nat) < 2" "(1::nat) < 2" by simp_all
    from assms(2)[unfolded 3, rule_format, OF lt(1)]
    obtain e0 where e0: "tryFetch (fetch 0) = Inl e0" "err_name e0 \<noteq> ''AbortError''" by blast
    from assms(2)[unfolded 3, rule_format, OF lt(2)]
    obtain e1 where e1: "tryFetch (fetch 1) = Inl e1" "err_name e1 \<noteq> ''AbortError''" by blast
    from 3 assms(3) e0 e1 show ?thesis
      by (simp add: fetchWithRetry_def fetchLoop.simps Let_def numeral_2_eq_2 hosting_delays)
  qed
qed

text \<open>
  Claim C3, as stated: after \<open>N\<close> retryable failures the last failure is raised
  wrapped as \<^verbatim>\<open>ExhaustedRetries\<close>. With two attempts that both fail as overloaded,
  the value raised is the failure of the operation itself, named \<^verbatim>\<open>Error\<close>.
\<close>

theorem retry_exhausted_not_wrapped:
  "outcome (retryWithBackoff ''key'' (\<lambda>i. Inl modelOverloaded :: error + string) 2 (Double 2000) None)
     = Inl modelOverloaded
   \<and> \<not> isExhaustedRetries modelOverloaded"
  by (simp add: retryWithBackoff_def retryLoop.simps isRetryable_modelOverloaded)
   (simp add: modelOverloaded_def Error_def isExhaustedRetries_def)

text \<open>
  Claim C3, amended. With the API key configured and no cancellation, for every
  \<open>maxRetries \<ge> 1\<close>, every initial delay and every operation all of whose first
  \<open>maxRetries\<close> invocations fail with a retryable error, \<open>retryWithBackoff\<close> invokes
  the operation exactly \<open>maxRetries\<close> times, sleeps \<open>maxRetries - 1\<close> times in between,
  and then raises the last failure itself, unwrapped.
\<close>

theorem retry_exhausted_raises_last_failure:
  assumes "apiKey \<noteq> []" and "0 < maxRetries"
    and "\<forall>j < maxRetries. \<exists>e. operation j = Inl e \<and> isRetryable e"
  shows "outcome (retryWithBackoff apiKey operation maxRetries initialDelay None)
           = operation (maxRetries - 1)
       \<and> invocations (retryWithBackoff apiKey operation maxRetries initialDelay None) = maxRetries
       \<and> length (waits (retryWithBackoff apiKey operation maxRetries initialDelay None))
           = maxRetries - 1
       \<and> (\<exists>e. operation (maxRetries - 1) = Inl e)"
  using retryWithBackoff_exhausted_general[OF assms, of initialDelay] by simp

theorem retry_exhausted_raises_last_failure_witness:
  "outcome (retryWithBackoff ''key'' (\<lambda>i. Inl modelOverloaded :: error + string) 5 (Double 2000) None)
     = Inl modelOverloaded
   \<and> invocations (retryWithBackoff ''key'' (\<lambda>i. Inl modelOverloaded :: error + string) 5
                    (Double 2000) None) = 5
   \<and> length (waits (retryWithBackoff ''key'' (\<lambda>i. Inl modelOverloaded :: error + string) 5
                      (Double 2000) None)) = 4"
proof -
  have key: "''key'' \<noteq> []" and pos: "(0::nat) < 5" by simp_all
  have fails: "\<forall>j < (5::nat). \<exists>e. (\<lambda>i. Inl modelOverloaded :: error + string) j = Inl e \<and> isRetryable e"
    by (simp add: isRetryable_modelOverloaded)
  from retry_exhausted_raises_last_failure[OF key pos fails, of "Double 2000"] show ?thesis
    by simp
qed

text \<open>
  Claim C4, as stated: every remote call of every pipeline is retried with at most
  5 attempts and delays 2000 ms, 3000 ms, ... The calls to the hosting service go
  through \<open>fetchWithRetry\<close> with 3 attempts and delays 1000 ms, 2000 ms: here against
  a server that answers 500 every time.
\<close>

theorem hosting_calls_use_other_policy:
  "fetchWithRetry (\<lambda>i. Inr serverError) 3 None
     = \<lparr>outcome = Inl (httpError 500), invocations = 3, waits = [Double 1000, Double 2000]\<rparr>
   \<and> invocations (fetchWithRetry (\<lambda>i. Inr serverError) 3 None) \<noteq> 5
   \<and> waits (fetchWithRetry (\<lambda>i. Inr serverError) 3 None)
       \<noteq> [Double 2000, Double 3000, Double 4500, Double 6750]"
proof -
  have run: "fetchWithRetry (\<lambda>i. Inr serverError) 3 None
     = \<lparr>outcome = Inl (httpError 500), invocations = 3, waits = [Double 1000, Double 2000]\<rparr>"
    by (simp add: fetchWithRetry_def fetchLoop.simps tryFetch_def serverError_def throwLast_def
        httpError_def Error_def Let_def string_of_nat.simps numeral_2_eq_2 hosting_delays)
  show ?thesis
    by (simp add: run)
qed

text \<open>
  Claim C4, amended. Every call to the generation service goes through
  \<open>retryWithBackoff\<close> with 5 attempts and an initial delay of 2000 ms, so that the
  waits before the retries are 2000, 3000, 4500 and 6750 ms. For any budget and
  initial delay the first wait is the initial delay and every further wait is the
  double product of the previous one and 1.5; nothing caps it. Every call to the
  hosting service goes through \<open>fetchWithRetry\<close> with 3 attempts, where every
  failure that is not an abort is retried, with waits of 1000 and 2000 ms.
\<close>

theorem retry_policies:
  "(\<forall>k v. apiKey \<noteq> [] \<and> k < 5 \<and> (\<forall>j < k. \<exists>e. generateContent j = Inl e \<and> isRetryable e)
          \<and> generateContent k = Inr v \<longrightarrow>
      agentCall apiKey generateContent None
        = \<lparr>outcome = Inr v, invocations = k + 1,
           waits = take k [Double 2000, Double 3000, Double 4500, Double 6750]\<rparr>)
   \<and> (apiKey \<noteq> [] \<and> (\<forall>j < 5. \<exists>e. generateContent j = Inl e \<and> isRetryable e) \<longrightarrow>
        invocations (agentCall apiKey generateContent None) = 5
        \<and> waits (agentCall apiKey generateContent None)
            = [Double 2000, Double 3000, Double 4500, Double 6750])
   \<and> (\<forall>k v. apiKey \<noteq> [] \<and> k < maxRetries
          \<and> (\<forall>j < k. \<exists>e. operation j = Inl e \<and> isRetryable e) \<and> operation k = Inr v \<longrightarrow>
        waits (retryWithBackoff apiKey operation maxRetries initialDelay None)
          = map (\<lambda>n. (times1_5 ^^ n) initialDelay) [0..<k])
   \<and> (\<forall>k res. k < 3 \<and> (\<forall>j < k. \<exists>e. tryFetch (fetch j) = Inl e \<and> err_name e \<noteq> ''AbortError'')
          \<and> tryFetch (fetch k) = Inr res \<longrightarrow>
        fetchWithRetry fetch 3 None
          = \<lparr>outcome = Inr res, invocations = k + 1, waits = take k [Double 1000, Double 2000]\<rparr>)
   \<and> ((\<forall>j < 3. \<exists>e. tryFetch (fetch j) = Inl e \<and> err_name e \<noteq> ''AbortError'') \<longrightarrow>
        invocations (fetchWithRetry fetch 3 None) = 3
        \<and> waits (fetchWithRetry fetch 3 None) = [Double 1000, Double 2000])"
proof -
  have a: "agentCall apiKey generateContent None
        = \<lparr>outcome = Inr v, invocations = k + 1,
           waits = take k [Double 2000, Double 3000, Double 4500, Double 6750]\<rparr>"
    if "apiKey \<noteq> []" "k < 5" "\<forall>j < k. \<exists>e. generateContent j = Inl e \<and> isRetryable e"
      "generateContent k = Inr v" for k v
  proof -
    from that(2) have "k \<le> 4" by simp
    then have "map (\<lambda>n. (times1_5 ^^ n) (Double 2000)) [0..<k]
        = take k (map (\<lambda>n. (times1_5 ^^ n) (Double 2000)) [0..<4])"
      by (simp add: take_map min_def)
    then have "map (\<lambda>n. (times1_5 ^^ n) (Double 2000)) [0..<k]
        = take k [Double 2000, Double 3000, Double 4500, Double 6750]"
      by (simp only: default_backoff)
    with retryWithBackoff_settles[OF that, of "Double 2000"] show ?thesis
      by (simp add: agentCall_def)
  qed
  have b: "invocations (agentCall apiKey generateContent None) = 5
        \<and> waits (agentCall apiKey generateContent None)
            = [Double 2000, Double 3000, Double 4500, Double 6750]"
    if "apiKey \<noteq> []" "\<forall>j < 5. \<exists>e. generateContent j = Inl e \<and> isRetryable e"
  proof -
    have "(0::nat) < 5" by simp
    from retryWithBackoff_exhausted_general[OF that(1) this that(2), of "Double 2000"]
    have "invocations (agentCall apiKey generateContent None) = 5
        \<and> waits (agentCall apiKey generateContent None)
            = map (\<lambda>n. (times1_5 ^^ n) (Double 2000)) [0..<4]"
      by (simp add: agentCall_def)
    then show ?thesis by (simp only: default_backoff)
  qed
  have c: "waits (retryWithBackoff apiKey operation maxRetries initialDelay None)
          = map (\<lambda>n. (times1_5 ^^ n) initialDelay) [0..<k]"
    if "apiKey \<noteq> []" "k < maxRetries" "\<forall>j < k. \<exists>e. operation j = Inl e \<and> isRetryable e"
      "operation k = Inr v" for k v
    using retryWithBackoff_settles[OF that] by simp
  have d: "fetchWithRetry fetch 3 None
          = \<lparr>outcome = Inr res, invocations = k + 1, waits = take k [Double 1000, Double 2000]\<rparr>"
    if "k < 3" "\<forall>j < k. \<exists>e. tryFetch (fetch j) = Inl e \<and> err_name e \<noteq> ''AbortError''"
      "tryFetch (fetch k) = Inr res" for k res
    using that by (rule fetchWithRetry_delivers)
  have e: "invocations (fetchWithRetry fetch 3 None) = 3
        \<and> waits (fetchWithRetry fetch 3 None) = [Double 1000, Double 2000]"
    if "\<forall>j < 3. \<exists>e. tryFetch (fetch j) = Inl e \<and> err_name e \<noteq> ''AbortError''"
    using fetchWithRetry_three_failures[OF that] by auto
  have A: "\<forall>k v. apiKey \<noteq> [] \<and> k < 5 \<and> (\<forall>j < k. \<exists>e. generateContent j = Inl e \<and> isRetryable e)
          \<and> generateContent k = Inr v \<longrightarrow>
      agentCall apiKey generateContent None
        = \<lparr>outcome = Inr v, invocations = k + 1,
           waits = take k [Double 2000, Double 3000, Double 4500, Double 6750]\<rparr>"
    using a by blast
  have B: "apiKey \<noteq> [] \<and> (\<forall>j < 5. \<exists>e. generateContent j = Inl e \<and> isRetryable e) \<longrightarrow>
        invocations (agentCall apiKey generateContent None) = 5
        \<and> waits (agentCall apiKey generateContent None)
            = [Double 2000, Double 3000, Double 4500, Double 6750]"
    using b by blast
  have C: "\<forall>k v. apiKey \<noteq> [] \<and> k < maxRetries
          \<and> (\<forall>j < k. \<exists>e. operation j = Inl e \<and> isRetryable e) \<and> operation k = Inr v \<longrightarrow>
        waits (retryWithBackoff apiKey operation maxRetries initialDelay None)
          = map (\<lambda>n. (times1_5 ^^ n) initialDelay) [0..<k]"
    using c by blast
  have D: "\<forall>k res. k < 3 \<and> (\<forall>j < k. \<exists>e. tryFetch (fetch j) = Inl e \<and> err_name e \<noteq> ''AbortError'')
          \<and> tryFetch (fetch k) = Inr res \<longrightarrow>
        fetchWithRetry fetch 3 None
          = \<lparr>outcome = Inr res, invocations = k + 1, waits = take k [Double 1000, Double 2000]\<rparr>"
    using d by blast
  have E: "(\<forall>j < 3. \<exists>e. tryFetch (fetch j) = Inl e \<and> err_name e \<noteq> ''AbortError'') \<longrightarrow>
        invocations (fetchWithRetry fetch 3 None) = 3
        \<and> waits (fetchWithRetry fetch 3 None) = [Double 1000, Double 2000]"
    using e by blast
  show ?thesis
    by (intro conjI; (fact A | fact B | fact C | fact D | fact E))
qed

theorem retry_policies_witness:
  "agentCall ''key'' (\<lambda>i. if i < 2 then Inl modelOverloaded else Inr ''text'') None
     = \<lparr>outcome = Inr ''text'', invocations = 3, waits = [Double 2000, Double 3000]\<rparr>
   \<and> waits (agentCall ''key'' (\<lambda>i. Inl modelOverloaded :: error + string) None)
       = [Double 2000, Double 3000, Double 4500, Double 6750]
   \<and> waits (retryWithBackoff ''key'' (\<lambda>i. if i < 2 then Inl modelOverloaded else Inr ''text'') 3
              (Double (3602879701896397 / 36028797018963968)) None)
       = [Double (3602879701896397 / 36028797018963968),
          Double (1351079888211149 / 9007199254740992)]
   \<and> fetchWithRetry (\<lambda>i. if i < 1 then Inr serverError else Inr notFound) 3 None
       = \<lparr>outcome = Inr notFound, invocations = 2, waits = [Double 1000]\<rparr>
   \<and> waits (fetchWithRetry (\<lambda>i. Inr serverError) 3 None) = [Double 1000, Double 2000]"
proof -
  let ?gc = "\<lambda>i::nat. if i < 2 then Inl modelOverloaded else (Inr ''text'' :: error + string)"
  let ?bad = "\<lambda>i::nat. Inl modelOverloaded :: error + string"
  let ?f = "\<lambda>i::nat. if i < 1 then Inr serverError else (Inr notFound :: error + Response)"
  let ?g = "\<lambda>i::nat. Inr serverError :: error + Response"
  let ?tenth = "Double (3602879701896397 / 36028797018963968)"
  have key: "''key'' \<noteq> []" by simp
  have gc: "(2::nat) < 5 \<and> (\<forall>j < 2. \<exists>e. ?gc j = Inl e \<and> isRetryable e) \<and> ?gc 2 = Inr ''text''"
    by (simp add: isRetryable_modelOverloaded)
  have gc3: "(2::nat) < 3 \<and> (\<forall>j < 2. \<exists>e. ?gc j = Inl e \<and> isRetryable e) \<and> ?gc 2 = Inr ''text''"
    by (simp add: isRetryable_modelOverloaded)
  have bad: "\<forall>j < 5. \<exists>e. ?bad j = Inl e \<and> isRetryable e"
    by (simp add: isRetryable_modelOverloaded)
  have f: "(1::nat) < 3 \<and> (\<forall>j < 1. \<exists>e. tryFetch (?f j) = Inl e \<and> err_name e \<noteq> ''AbortError'')
      \<and> tryFetch (?f 1) = Inr notFound"
    by (simp add: tryFetch_def serverError_def notFound_def httpError_def Error_def)
  have g: "\<forall>j < 3. \<exists>e. tryFetch (?g j) = Inl e \<and> err_name e \<noteq> ''AbortError''"
    by (simp add: tryFetch_def serverError_def httpError_def Error_def)
  have upt: "[0..<2] = [0, 1]" by (simp add: upt_rec)
  note first = retry_policies[where apiKey = "''key''" and generateContent = ?gc and fetch = ?f
      and operation = ?gc and maxRetries = 3 and initialDelay = ?tenth]
  note second = retry_policies[where apiKey = "''key''" and generateContent = ?bad and fetch = ?g]
  have a: "agentCall ''key'' ?gc None
     = \<lparr>outcome = Inr ''text'', invocations = 2 + 1,
        waits = take 2 [Double 2000, Double 3000, Double 4500, Double 6750]\<rparr>"
    using first[THEN conjunct1, rule_format, of 2 "''text''"] key gc by simp
  have t: "waits (retryWithBackoff ''key'' ?gc 3 ?tenth None)
     = map (\<lambda>n. (times1_5 ^^ n) ?tenth) [0..<2]"
    using first[THEN conjunct2, THEN conjunct2, THEN conjunct1, rule_format, of 2 "''text''"]
      key gc3 by simp
  have c: "fetchWithRetry ?f 3 None
     = \<lparr>outcome = Inr notFound, invocations = 1 + 1, waits = take 1 [Double 1000, Double 2000]\<rparr>"
    using first[THEN conjunct2, THEN conjunct2, THEN conjunct2, THEN conjunct1, rule_format,
        of 1 notFound] f by simp
  have b: "waits (agentCall ''key'' ?bad None) = [Double 2000, Double 3000, Double 4500, Double 6750]"
    using second[THEN conjunct2, THEN conjunct1] key bad by simp
  have d: "waits (fetchWithRetry ?g 3 None) = [Double 1000, Double 2000]"
    using second[THEN conjunct2, THEN conjunct2, THEN conjunct2, THEN conjunct2] g by simp
  from t have t': "waits (retryWithBackoff ''key'' ?gc 3 ?tenth None)
     = [?tenth, Double (1351079888211149 / 9007199254740992)]"
    by (simp add: upt rounded_delay[THEN conjunct1])
  from a b c d t' show ?thesis by simp
qed

text \<open>
  Claim C5, as stated: a token that is set before the first attempt makes
  \<open>retryWithBackoff\<close> raise a cancellation error. The test of the API key comes
  first: without a key the error raised is the one of the missing key, and with a
  budget of 0 attempts the loop, which holds the test of the token, is not entered.
\<close>

theorem cancelled_without_key:
  "retryWithBackoff [] (\<lambda>i. Inl modelOverloaded :: error + string) 5 (Double 2000) (Some 0)
     = \<lparr>outcome = Inl missingApiKey, invocations = 0, waits = []\<rparr>
   \<and> \<not> isAbortError missingApiKey
   \<and> retryWithBackoff ''key'' (\<lambda>i. Inl modelOverloaded :: error + string) 0 (Double 2000) (Some 0)
     = \<lparr>outcome = Inl connectionFailed, invocations = 0, waits = []\<rparr>
   \<and> \<not> isAbortError connectionFailed"
  by (simp add: retryWithBackoff_def retryLoop.simps isAbortError_def missingApiKey_def
      connectionFailed_def Error_def)

text \<open>
  Claim C5, amended. With the API key configured and a budget of at least one
  attempt: if the signal is aborted before the first attempt, \<open>retryWithBackoff\<close>
  raises the abort error without invoking the operation; if the abort is observed
  after attempt \<open>k\<close> failed (any failure, retryable or not, also on the last attempt
  of the budget), it raises the abort error at once, after exactly \<open>k + 1\<close>
  invocations and the \<open>k\<close> waits that went before, without a further one.
\<close>

theorem retryWithBackoff_cancel:
  assumes "apiKey \<noteq> []"
  shows "(0 < maxRetries \<longrightarrow>
            retryWithBackoff apiKey operation maxRetries initialDelay (Some 0)
              = \<lparr>outcome = Inl userAbort, invocations = 0, waits = []\<rparr>)
       \<and> (\<forall>k e. k < maxRetries \<and> (\<forall>j < k. \<exists>e'. operation j = Inl e' \<and> isRetryable e')
                  \<and> operation k = Inl e \<longrightarrow>
            outcome (retryWithBackoff apiKey operation maxRetries initialDelay (Some (2 * k + 1)))
              = Inl userAbort
            \<and> invocations (retryWithBackoff apiKey operation maxRetries initialDelay
                             (Some (2 * k + 1))) = k + 1
            \<and> length (waits (retryWithBackoff apiKey operation maxRetries initialDelay
                               (Some (2 * k + 1)))) = k)
       \<and> isAbortError userAbort"
proof -
  have before: "retryWithBackoff apiKey operation maxRetries initialDelay (Some 0)
      = \<lparr>outcome = Inl userAbort, invocations = 0, waits = []\<rparr>" if "0 < maxRetries"
    using assms that by (simp add: retryWithBackoff_def retryLoop.simps aborted_at_def)
  have after: "outcome (retryWithBackoff apiKey operation maxRetries initialDelay (Some (2 * k + 1)))
              = Inl userAbort
            \<and> invocations (retryWithBackoff apiKey operation maxRetries initialDelay
                             (Some (2 * k + 1))) = k + 1
            \<and> length (waits (retryWithBackoff apiKey operation maxRetries initialDelay
                               (Some (2 * k + 1)))) = k"
    if k: "k < maxRetries" and fails: "\<forall>j < k. \<exists>e'. operation j = Inl e' \<and> isRetryable e'"
      and e: "operation k = Inl e" for k e
    using retryWithBackoff_interrupted[OF assms k fails e, of initialDelay] by simp
  have "isAbortError userAbort"
    by (simp add: isAbortError_def userAbort_def DOMException_def)
  with before after show ?thesis by blast
qed

theorem retryWithBackoff_cancel_witness:
  "retryWithBackoff ''key'' (\<lambda>i. Inl modelOverloaded :: error + string) 5 (Double 2000) (Some 0)
     = \<lparr>outcome = Inl userAbort, invocations = 0, waits = []\<rparr>
   \<and> outcome (retryWithBackoff ''key'' (\<lambda>i. Inl modelOverloaded :: error + string) 5 (Double 2000)
               (Some (2 * 4 + 1))) = Inl userAbort
   \<and> invocations (retryWithBackoff ''key'' (\<lambda>i. Inl modelOverloaded :: error + string) 5
                    (Double 2000) (Some (2 * 4 + 1))) = 5
   \<and> length (waits (retryWithBackoff ''key'' (\<lambda>i. Inl modelOverloaded :: error + string) 5
                      (Double 2000) (Some (2 * 4 + 1)))) = 4"
proof -
  have key: "''key'' \<noteq> []" by simp
  have pre: "\<forall>j < k. \<exists>e'. (\<lambda>i. Inl modelOverloaded :: error + string) j = Inl e' \<and> isRetryable e'" for k :: nat
    by (simp add: isRetryable_modelOverloaded)
  note inst = retryWithBackoff_cancel[OF key, of 5 "\<lambda>i. Inl modelOverloaded :: error + string"
      "Double 2000"]
  from inst have a: "retryWithBackoff ''key'' (\<lambda>i. Inl modelOverloaded :: error + string) 5
        (Double 2000) (Some 0)
     = \<lparr>outcome = Inl userAbort, invocations = 0, waits = []\<rparr>" by simp
  from inst[THEN conjunct2, THEN conjunct1, rule_format, of 4 modelOverloaded] pre[of 4]
  have c: "outcome (retryWithBackoff ''key'' (\<lambda>i. Inl modelOverloaded :: error + string) 5 (Double 2000)
               (Some (2 * 4 + 1))) = Inl userAbort
   \<and> invocations (retryWithBackoff ''key'' (\<lambda>i. Inl modelOverloaded :: error + string) 5
                    (Double 2000) (Some (2 * 4 + 1))) = 4 + 1
   \<and> length (waits (retryWithBackoff ''key'' (\<lambda>i. Inl modelOverloaded :: error + string) 5
                      (Double 2000) (Some (2 * 4 + 1)))) = 4"
    by simp
  from a c show ?thesis by simp
qed


section \<open>Pipeline runners: how a run ends\<close>

lemma state_updateState [simp]: "state (updateState f w) = f (state w)"
  and aborted_updateState [simp]: "aborted (updateState f w) = aborted w"
  and issued_updateState [simp]: "issued (updateState f w) = issued w"
  by (simp_all add: updateState_def)

lemma remoteCall_None [simp]: "remoteCall None c w = w\<lparr>issued := issued w @ [c]\<rparr>"
  by (simp add: remoteCall_def)

lemma issued_remoteCall [simp]: "issued (remoteCall cancelAt c w) = issued w @ [c]"
  by (simp add: remoteCall_def handleAbort_def Let_def)

lemma artifacts_remoteCall [simp]:
  "hubs (state (remoteCall cancelAt c w)) = hubs (state w)"
  "articles (state (remoteCall cancelAt c w)) = articles (state w)"
  "identity (state (remoteCall cancelAt c w)) = identity (state w)"
  by (simp_all add: remoteCall_def handleAbort_def Let_def)

lemma fields_setTaskStatus [simp]:
  "hubs (setTaskStatus i s st) = hubs st"
  "articles (setTaskStatus i s st) = articles st"
  "identity (setTaskStatus i s st) = identity st"
  "status (setTaskStatus i s st) = status st"
  "currentDetail (setTaskStatus i s st) = currentDetail st"
  by (simp_all add: setTaskStatus_def)

lemma atRest_cleared [simp]: "atRest s (cleared s st)"
  by (simp add: atRest_def cleared_def)

lemma fields_cleared [simp]:
  "hubs (cleared s st) = hubs st"
  "articles (cleared s st) = articles st"
  "identity (cleared s st) = identity st"
  "status (cleared s st) = s"
  by (simp_all add: cleared_def)









lemmas example_defs =
  refusing_def cooperative_def acme_def page_def created_def builtState_def initialState_def
  badRequest_def Error_def

lemmas runner_defs =
  handleInitialBuild_def handleImport_def handlePublish_def handleTuneDesign_def tuneTry_def
  buildCatch_def importCatch_def publishCatch_def targetsToProcess_def ofHub_def ofArticle_def
  publishFiles_def startTask_def isAbortError_def cleared_def ok_def endsWith_def Let_def

section \<open>Cancellation while a call is in flight\<close>



lemma lastKnownGood_cleared [simp]: "lastKnownGood (cleared s st) = lastKnownGood st"
  by (simp add: lastKnownGood_def)

lemma calm_updateState [simp]: "calm k (updateState f w) = calm k w"
  by (simp add: calm_def)






























lemma not_abort_Error: "\<not> isAbortError (Error m)"
  by (simp add: isAbortError_def Error_def)









text \<open>
  What the statement above leaves open. The generation calls are not handed the
  signal, so a call in flight when the button is pressed may still complete
  normally; the run then goes on until the next call is rejected, and what it
  wrote in between stays. Here the button is pressed during the identity call of
  a Build, which returns; the run ends by cancellation with the status of the
  strategy phase and a progress detail.
\<close>

lemma build_cancel_overtaken:
  "fst (handleInitialBuild (abortingAt 1 cooperative) (Some 0) initialState) = Cancelled
   \<and> status (state (snd (handleInitialBuild (abortingAt 1 cooperative) (Some 0) initialState)))
       = generating_strategy
   \<and> currentDetail (state (snd (handleInitialBuild (abortingAt 1 cooperative) (Some 0)
        initialState))) = Some ''Generating the site structure...''"
  by (simp add: runner_defs example_defs abortingAt_def remoteCall_def handleAbort_def
      userAbort_def DOMException_def)


section \<open>Tune: a failed run changes no page\<close>

lemma tunePages_artifacts:
  "hubs (state (snd (tunePages svc cancelAt ts updated w))) = hubs (state w)
   \<and> articles (state (snd (tunePages svc cancelAt ts updated w))) = articles (state w)"
proof (induction svc cancelAt ts updated w rule: tunePages.induct)
  case (1 svc cancelAt updated w)
  then show ?case by simp
next
  case (2 svc cancelAt t ts updatedHubs updatedArticles w)
  then show ?case
    by (simp add: Let_def split: sum.splits)
qed

lemma tunePages_artifacts_result:
  "tunePages svc cancelAt ts updated w = (r, w') \<Longrightarrow>
     hubs (state w') = hubs (state w) \<and> articles (state w') = articles (state w)"
  using tunePages_artifacts[of svc cancelAt ts updated w] by simp

lemma tuneTry_artifacts:
  assumes "tuneTry svc cancelAt tgt st0 w1 = (ex, w)" and "ex \<noteq> Succeeded"
  shows "hubs (state w) = hubs (state w1) \<and> articles (state w) = articles (state w1)"
  using assms unfolding tuneTry_def
  by (auto simp: Let_def dest!: tunePages_artifacts_result
      split: sum.splits prod.splits ctl.splits if_splits)

text \<open>
  Claim C2, as stated: after a fatal failure of the refactor loop the state keeps
  the new markup of the pages refactored before the failure. In a Tune run over
  two hubs whose first refactor call succeeds and whose second fails, the run ends
  in \<open>ready\<close> but the first hub still has its old markup.
\<close>

theorem tune_failure_keeps_no_update:
  "fst (handleTuneDesign
         (refusing\<lparr>svc_generateTunePlanAgent := (\<lambda>k. Inr (''plan'', [''darken''])),
                   svc_tunePageDesignAgent :=
                     (\<lambda>k. if k = 1 then Inr ''<p>dark about</p>'' else Inl badRequest)\<rparr>)
         None ''dark mode'' ''all'' builtState) = Failed badRequest
   \<and> issued (snd (handleTuneDesign
         (refusing\<lparr>svc_generateTunePlanAgent := (\<lambda>k. Inr (''plan'', [''darken''])),
                   svc_tunePageDesignAgent :=
                     (\<lambda>k. if k = 1 then Inr ''<p>dark about</p>'' else Inl badRequest)\<rparr>)
         None ''dark mode'' ''all'' builtState))
       = [GenerateTunePlanAgent, TunePageDesignAgent ''<p>about</p>'',
          TunePageDesignAgent ''<p>works</p>'']
   \<and> status (state (snd (handleTuneDesign
         (refusing\<lparr>svc_generateTunePlanAgent := (\<lambda>k. Inr (''plan'', [''darken''])),
                   svc_tunePageDesignAgent :=
                     (\<lambda>k. if k = 1 then Inr ''<p>dark about</p>'' else Inl badRequest)\<rparr>)
         None ''dark mode'' ''all'' builtState))) = ready
   \<and> hub_html (hubs (state (snd (handleTuneDesign
         (refusing\<lparr>svc_generateTunePlanAgent := (\<lambda>k. Inr (''plan'', [''darken''])),
                   svc_tunePageDesignAgent :=
                     (\<lambda>k. if k = 1 then Inr ''<p>dark about</p>'' else Inl badRequest)\<rparr>)
         None ''dark mode'' ''all'' builtState))) ! 0) = Some ''<p>about</p>''"
  by (simp add: handleTuneDesign_def tuneTry_def targetsToProcess_def ofHub_def
      refusing_def builtState_def initialState_def page_def startTask_def
      isAbortError_def badRequest_def Error_def cleared_def Let_def)

text \<open>
  Claim C2, amended. If a Tune run ends by a fatal failure, at whatever point of
  the plan phase or of the refactor loop, it ends in status \<open>ready\<close> with an empty
  ledger and a cleared detail, and the hubs and articles of the state are exactly
  those from before the run: the markup of the targets refactored before the
  failure is discarded, since the updates are written to the state only after the
  last target.
\<close>

theorem tune_failure_discards_updates:
  assumes "fst (handleTuneDesign svc cancelAt instruction tgt st0) = Failed e"
  shows "atRest ready (state (snd (handleTuneDesign svc cancelAt instruction tgt st0)))
       \<and> hubs (state (snd (handleTuneDesign svc cancelAt instruction tgt st0))) = hubs st0
       \<and> articles (state (snd (handleTuneDesign svc cancelAt instruction tgt st0))) = articles st0"
proof -
  from assms have started: "\<not> (identity st0 = None \<or> instruction = [])"
    by (auto simp: handleTuneDesign_def split: if_splits)
  define w1 where "w1 = updateState (\<lambda>s. s\<lparr>status := tuning_design,
       executionPlan := [task ''plan-generation'' ''Instruction analysis and process decision'' running],
       currentDetail := Some ''Breaking the request down into requirements...''\<rparr>) (startTask st0)"
  obtain ex w where tried: "tuneTry svc cancelAt tgt st0 w1 = (ex, w)"
    by (cases "tuneTry svc cancelAt tgt st0 w1")
  from started tried have run: "handleTuneDesign svc cancelAt instruction tgt st0
      = (ex, updateState (cleared ready) w)"
    by (auto simp: handleTuneDesign_def Let_def w1_def)
  with assms have "ex = Failed e" by simp
  then have "ex \<noteq> Succeeded" by simp
  from tuneTry_artifacts[OF tried this]
  have "hubs (state w) = hubs st0 \<and> articles (state w) = articles st0"
    by (simp add: w1_def startTask_def)
  with run show ?thesis by simp
qed

theorem tune_failure_discards_updates_witness:
  "fst (handleTuneDesign
         (refusing\<lparr>svc_generateTunePlanAgent := (\<lambda>k. Inr (''plan'', [''darken''])),
                   svc_tunePageDesignAgent :=
                     (\<lambda>k. if k = 1 then Inr ''<p>dark about</p>'' else Inl badRequest)\<rparr>)
         None ''dark mode'' ''all'' builtState) = Failed badRequest
   \<and> hubs (state (snd (handleTuneDesign
         (refusing\<lparr>svc_generateTunePlanAgent := (\<lambda>k. Inr (''plan'', [''darken''])),
                   svc_tunePageDesignAgent :=
                     (\<lambda>k. if k = 1 then Inr ''<p>dark about</p>'' else Inl badRequest)\<rparr>)
         None ''dark mode'' ''all'' builtState))) = hubs builtState
   \<and> status (state (snd (handleTuneDesign
         (refusing\<lparr>svc_generateTunePlanAgent := (\<lambda>k. Inr (''plan'', [''darken''])),
                   svc_tunePageDesignAgent :=
                     (\<lambda>k. if k = 1 then Inr ''<p>dark about</p>'' else Inl badRequest)\<rparr>)
         None ''dark mode'' ''all'' builtState))) = ready"
proof -
  let ?svc = "refusing\<lparr>svc_generateTunePlanAgent := (\<lambda>k. Inr (''plan'', [''darken''])),
                   svc_tunePageDesignAgent :=
                     (\<lambda>k. if k = 1 then Inr ''<p>dark about</p>'' else Inl badRequest)\<rparr>"
  have failed: "fst (handleTuneDesign ?svc None ''dark mode'' ''all'' builtState) = Failed badRequest"
    by (simp add: handleTuneDesign_def tuneTry_def targetsToProcess_def ofHub_def
      refusing_def builtState_def initialState_def page_def startTask_def
      isAbortError_def badRequest_def Error_def cleared_def Let_def)
  from tune_failure_discards_updates[OF failed] failed show ?thesis
    by (simp add: atRest_def)
qed

section \<open>Build: the result of a successful run\<close>

lemma buildPages_succeeds:
  assumes "buildPages svc None hs acc w = (r, w')"
    and "\<forall>k. \<exists>html. svc_generateHtmlAgent svc k = Inr html"
    and "\<not> aborted w"
  shows "\<exists>htmls. length htmls = length hs
           \<and> r = Done (acc @ map (\<lambda>(h, x). h\<lparr>hub_html := Some x\<rparr>) (zip hs htmls))
           \<and> identity (state w') = identity (state w)"
  using assms
proof (induction hs arbitrary: acc w)
  case Nil
  then show ?case by simp
next
  case (Cons h hs)
  let ?w2 = "updateState (\<lambda>s. s\<lparr>currentDetail :=
                 Some (''Coding HTML: '' @ hub_slug h @ ''/index.html'')\<rparr>)
               (updateState (setTaskStatus (''build-'' @ hub_id h) running) w)"
  from Cons.prems(2) obtain html
    where html: "svc_generateHtmlAgent svc (length (issued ?w2)) = Inr html" by blast
  let ?w4 = "updateState (setTaskStatus (''build-'' @ hub_id h) completed)
               (remoteCall None (GenerateHtmlAgent (hub_title h)) ?w2)"
  from Cons.prems(1,3) html
  have rest: "buildPages svc None hs (acc @ [h\<lparr>hub_html := Some html\<rparr>]) ?w4 = (r, w')"
    by (simp add: Let_def)
  have quiet: "\<not> aborted ?w4" using Cons.prems(3) by simp
  from Cons.IH[OF rest Cons.prems(2) quiet] obtain htmls
    where htmls: "length htmls = length hs"
      "r = Done ((acc @ [h\<lparr>hub_html := Some html\<rparr>])
                   @ map (\<lambda>(h, x). h\<lparr>hub_html := Some x\<rparr>) (zip hs htmls))"
      "identity (state w') = identity (state ?w4)"
    by blast
  then have "length (html # htmls) = length (h # hs)
      \<and> r = Done (acc @ map (\<lambda>(h, x). h\<lparr>hub_html := Some x\<rparr>) (zip (h # hs) (html # htmls)))
      \<and> identity (state w') = identity (state w)"
    by simp
  then show ?case by blast
qed

text \<open>
  Claim C8. In a Build run that is not cancelled, in which the identity call
  succeeds, the strategy call returns the hubs \<open>hubs0\<close> and every page generation
  call succeeds, the run ends by success; the final hub list is the synthesized
  homepage, with slug \<open>index\<close>, followed by the hubs of the strategy in their order,
  each with generated markup; so its length is \<open>length hubs0 + 1\<close>; the status is
  \<open>ready\<close>, the ledger is empty and the detail is cleared.
\<close>

theorem build_success_prepends_homepage:
  assumes "svc_generateIdentityAgent svc 0 = Inr ident"
    and "svc_generateStrategyAgent svc 1 = Inr (hubs0, rationale)"
    and "\<forall>k. \<exists>html. svc_generateHtmlAgent svc k = Inr html"
  shows "fst (handleInitialBuild svc None start) = Succeeded
       \<and> (\<exists>indexHtml htmls. length htmls = length hubs0
            \<and> hubs (state (snd (handleInitialBuild svc None start)))
                = \<lparr>hub_id = ''home'', hub_title = ''Home'', hub_slug = ''index'',
                    hub_description = ''Top page'', hub_html = Some indexHtml\<rparr>
                  # map (\<lambda>(h, x). h\<lparr>hub_html := Some x\<rparr>) (zip hubs0 htmls))
       \<and> length (hubs (state (snd (handleInitialBuild svc None start)))) = length hubs0 + 1
       \<and> hub_slug (hubs (state (snd (handleInitialBuild svc None start))) ! 0) = ''index''
       \<and> atRest ready (state (snd (handleInitialBuild svc None start)))
       \<and> identity (state (snd (handleInitialBuild svc None start))) = Some ident"
proof -
  obtain ex w where run: "handleInitialBuild svc None start = (ex, w)"
    by (cases "handleInitialBuild svc None start")
  have never: "svc_generateHtmlAgent svc k \<noteq> Inl e" for k e
    using assms(3)[rule_format, of k] by auto
  from run assms(1,2)
  have core: "ex = Succeeded
       \<and> (\<exists>indexHtml htmls. length htmls = length hubs0
            \<and> hubs (state w)
                = \<lparr>hub_id = ''home'', hub_title = ''Home'', hub_slug = ''index'',
                    hub_description = ''Top page'', hub_html = Some indexHtml\<rparr>
                  # map (\<lambda>(h, x). h\<lparr>hub_html := Some x\<rparr>) (zip hubs0 htmls))
       \<and> atRest ready (state w) \<and> identity (state w) = Some ident"
    unfolding handleInitialBuild_def
    by (auto simp: Let_def startTask_def never atRest_def
        dest!: buildPages_succeeds[OF _ assms(3)]
        split: sum.splits prod.splits ctl.splits)
  then obtain indexHtml htmls where shape: "length htmls = length hubs0"
      "hubs (state w) = \<lparr>hub_id = ''home'', hub_title = ''Home'', hub_slug = ''index'',
                    hub_description = ''Top page'', hub_html = Some indexHtml\<rparr>
                  # map (\<lambda>(h, x). h\<lparr>hub_html := Some x\<rparr>) (zip hubs0 htmls)"
    by blast
  then have "length (hubs (state w)) = length hubs0 + 1 \<and> hub_slug (hubs (state w) ! 0) = ''index''"
    by simp
  with core run show ?thesis by simp
qed

theorem build_success_prepends_homepage_witness:
  "fst (handleInitialBuild cooperative None initialState) = Succeeded
   \<and> length (hubs (state (snd (handleInitialBuild cooperative None initialState)))) = 3 + 1
   \<and> hub_slug (hubs (state (snd (handleInitialBuild cooperative None initialState))) ! 0) = ''index''
   \<and> atRest ready (state (snd (handleInitialBuild cooperative None initialState)))"
proof -
  have i: "svc_generateIdentityAgent cooperative 0 = Inr acme"
    by (simp add: cooperative_def)
  have s: "svc_generateStrategyAgent cooperative 1
      = Inr ([page ''about'' None, page ''works'' None, page ''contact'' None], ''Three sections'')"
    by (simp add: cooperative_def)
  have h: "\<forall>k. \<exists>html. svc_generateHtmlAgent cooperative k = Inr html"
    by (simp add: cooperative_def)
  from build_success_prepends_homepage[OF i s h, of initialState] show ?thesis
    by simp
qed

section \<open>Publish: repository creation and static hosting\<close>

lemma pushFiles_issued:
  assumes "pushFiles svc cancelAt files w = (r, w')"
  shows "\<exists>zs. issued w' = issued w @ zs \<and> CreateRepository \<notin> set zs \<and> EnablePages \<notin> set zs"
  using assms
proof (induction files arbitrary: w)
  case Nil
  then show ?case by simp
next
  case (Cons f fs)
  show ?case
  proof (cases "aborted w")
    case True
    with Cons.prems show ?thesis by simp
  next
    case False
    let ?w3 = "remoteCall cancelAt (PutContents (fst f))
                 (remoteCall cancelAt (GetContents (fst f))
                   (updateState (\<lambda>s. s\<lparr>currentDetail := Some (''Sending: '' @ fst f)\<rparr>) w))"
    have here: "issued ?w3 = issued w @ [GetContents (fst f), PutContents (fst f)]"
      by simp
    consider (stop) "w' = ?w3" | (go) "pushFiles svc cancelAt fs ?w3 = (r, w')"
      using Cons.prems False by (auto simp: Let_def split: sum.splits if_splits)
    then show ?thesis
    proof cases
      case stop
      with here show ?thesis by simp
    next
      case go
      from Cons.IH[OF go] obtain zs
        where "issued w' = issued ?w3 @ zs" "CreateRepository \<notin> set zs" "EnablePages \<notin> set zs"
        by blast
      with here have "issued w' = issued w @ ([GetContents (fst f), PutContents (fst f)] @ zs)
          \<and> CreateRepository \<notin> set ([GetContents (fst f), PutContents (fst f)] @ zs)
          \<and> EnablePages \<notin> set ([GetContents (fst f), PutContents (fst f)] @ zs)"
        by simp
      then show ?thesis by blast
    qed
  qed
qed

lemma publish_absent:
  assumes "handlePublish svc cancelAt start = (ex, w)" and "ex \<noteq> NotStarted"
    and "svc_fetchRepoDetails svc 0 = Inr None"
  shows "\<exists>rest. issued w = FetchRepoDetails # CreateRepository # rest"
  using assms unfolding handlePublish_def
  by (auto simp: Let_def startTask_def publishCatch_def dest!: pushFiles_issued
      split: sum.splits prod.splits ctl.splits option.splits if_splits)

lemma publish_present:
  assumes "handlePublish svc cancelAt start = (ex, w)"
    and "svc_fetchRepoDetails svc 0 = Inr (Some d)"
  shows "CreateRepository \<notin> set (issued w)"
  using assms unfolding handlePublish_def
  by (auto simp: Let_def startTask_def publishCatch_def dest!: pushFiles_issued
      split: sum.splits prod.splits ctl.splits option.splits if_splits)

text \<open>
  The lookup resolves to a value that tests false, which is what the runners take
  for an absent repository, on an answer with status 404, and also on an \<^verbatim>\<open>ok\<close>
  answer whose body is such a value (\<^verbatim>\<open>null\<close>, \<^verbatim>\<open>false\<close>, \<^verbatim>\<open>0\<close> or the empty string).
\<close>

lemma fetchRepoDetails_falsy:
  "(\<exists>v. fetchRepoDetails cleanedRepo fetch signal = Inr v \<and> \<not> truthy v) \<longleftrightarrow>
     includesStr cleanedRepo ''/''
     \<and> (\<exists>res. outcome (fetchWithRetry fetch 3 signal) = Inr res
            \<and> (res_status res = 404
                 \<or> ok res \<and> (\<exists>v. res_json res = Inr v \<and> \<not> truthy v)))"
  by (auto simp: fetchRepoDetails_def ok_def truthy_def split: sum.splits if_splits)

text \<open>
  Claim C7. In a Publish run that was started: if the lookup reports the
  repository absent, the call that creates the repository is the second remote
  call of the run, right after the lookup, so every upload of a file comes after
  it; if the lookup reports the repository present, the run never issues the call
  that creates the repository.
\<close>

theorem publish_creates_repo_iff_absent:
  "(svc_fetchRepoDetails svc 0 = Inr None \<and> fst (handlePublish svc cancelAt start) \<noteq> NotStarted \<longrightarrow>
      prefix [FetchRepoDetails, CreateRepository] (issued (snd (handlePublish svc cancelAt start)))
      \<and> (\<forall>i < length (issued (snd (handlePublish svc cancelAt start))).
            (\<exists>p. issued (snd (handlePublish svc cancelAt start)) ! i = PutContents p) \<longrightarrow> 1 < i))
   \<and> (\<forall>d. svc_fetchRepoDetails svc 0 = Inr (Some d) \<longrightarrow>
        CreateRepository \<notin> set (issued (snd (handlePublish svc cancelAt start))))"
proof -
  obtain ex w where run: "handlePublish svc cancelAt start = (ex, w)"
    by (cases "handlePublish svc cancelAt start")
  have absent: "prefix [FetchRepoDetails, CreateRepository] (issued w)
      \<and> (\<forall>i < length (issued w). (\<exists>p. issued w ! i = PutContents p) \<longrightarrow> 1 < i)"
    if "svc_fetchRepoDetails svc 0 = Inr None" "ex \<noteq> NotStarted"
  proof -
    from publish_absent[OF run that(2,1)] obtain rest
      where rest: "issued w = FetchRepoDetails # CreateRepository # rest" by blast
    have "1 < i" if "i < length (issued w)" "issued w ! i = PutContents p" for i p
    proof (rule ccontr)
      assume "\<not> 1 < i"
      then have "i = 0 \<or> i = 1" by auto
      with rest that(2) show False by auto
    qed
    with rest show ?thesis by auto
  qed
  have present: "CreateRepository \<notin> set (issued w)" if "svc_fetchRepoDetails svc 0 = Inr (Some d)" for d
    using publish_present[OF run that] .
  from absent present run
  show ?thesis by simp
qed

theorem publish_creates_repo_iff_absent_witness:
  "issued (snd (handlePublish cooperative None builtState))
     = [FetchRepoDetails, CreateRepository, GenerateReadmeAgent,
        GetContents ''about/index.html'', PutContents ''about/index.html'',
        GetContents ''works/index.html'', PutContents ''works/index.html'',
        GetContents ''README.md'', PutContents ''README.md'', EnablePages]
   \<and> prefix [FetchRepoDetails, CreateRepository] (issued (snd (handlePublish cooperative None builtState)))
   \<and> CreateRepository \<notin> set (issued (snd (handlePublish
        (cooperative\<lparr>svc_fetchRepoDetails := (\<lambda>k. Inr (Some \<lparr>default_branch = ''main''\<rparr>))\<rparr>)
        None builtState)))"
proof -
  let ?present = "cooperative\<lparr>svc_fetchRepoDetails := (\<lambda>k. Inr (Some \<lparr>default_branch = ''main''\<rparr>))\<rparr>"
  have trace: "issued (snd (handlePublish cooperative None builtState))
     = [FetchRepoDetails, CreateRepository, GenerateReadmeAgent,
        GetContents ''about/index.html'', PutContents ''about/index.html'',
        GetContents ''works/index.html'', PutContents ''works/index.html'',
        GetContents ''README.md'', PutContents ''README.md'', EnablePages]"
    by (simp add: runner_defs example_defs)
  have absent: "svc_fetchRepoDetails cooperative 0 = Inr None
      \<and> fst (handlePublish cooperative None builtState) \<noteq> NotStarted"
    by (simp add: runner_defs example_defs)
  have present: "svc_fetchRepoDetails ?present 0 = Inr (Some \<lparr>default_branch = ''main''\<rparr>)"
    by (simp add: cooperative_def)
  from publish_creates_repo_iff_absent[where svc = cooperative and cancelAt = None
      and start = builtState, THEN conjunct1] absent
  have a: "prefix [FetchRepoDetails, CreateRepository]
             (issued (snd (handlePublish cooperative None builtState)))"
    by blast
  from publish_creates_repo_iff_absent[where svc = "?present" and cancelAt = None
      and start = builtState, THEN conjunct2] present
  have b: "CreateRepository \<notin> set (issued (snd (handlePublish ?present None builtState)))"
    by blast
  from trace a b show ?thesis by blast
qed

lemma fetchLoop_delivered:
  "outcome (fetchLoop fetch retries signal i lastError) = Inr res \<Longrightarrow>
     res_status res \<noteq> 429 \<and> res_status res < 500"
proof (induction fetch retries signal i lastError rule: fetchLoop.induct)
  case (1 fetch retries signal i lastError)
  show ?case
  proof (cases "i < retries \<and> \<not> aborted_at signal (2 * i)")
    case False
    with "1.prems" show ?thesis
      by (subst (asm) fetchLoop.simps) (auto split: if_splits)
  next
    case True
    show ?thesis
    proof (cases "tryFetch (fetch i)")
      case (Inr r)
      with True "1.prems" have "r = res"
        by (subst (asm) fetchLoop.simps) simp
      with Inr show ?thesis
        by (auto simp: tryFetch_def split: sum.splits if_splits)
    next
      case (Inl e)
      show ?thesis
      proof (cases "err_name e = ''AbortError''")
        case True
        with \<open>i < retries \<and> \<not> aborted_at signal (2 * i)\<close> Inl "1.prems" show ?thesis
          by (subst (asm) fetchLoop.simps) simp
      next
        case False
        with True Inl "1.prems"
        have "outcome (fetchLoop fetch retries signal (i + 1) (Some e)) = Inr res"
          by (subst (asm) fetchLoop.simps) (simp add: Let_def)
        with "1.IH"[of e] True Inl False show ?thesis by simp
      qed
    qed
  qed
qed

lemma digits_string_of_nat: "set (string_of_nat n) \<subseteq> set ''0123456789''"
proof (induction n rule: string_of_nat.induct)
  case (1 n)
  have digit: "''0123456789'' ! d \<in> set ''0123456789''" if "d < 10" for d
    using that by (intro nth_mem) simp
  show ?case
  proof (cases "n < 10")
    case True
    with digit[of n] show ?thesis
      by (subst string_of_nat.simps) simp
  next
    case False
    have "n mod 10 < 10" by simp
    from digit[OF this] "1.IH" False show ?thesis
      by (subst string_of_nat.simps) simp
  qed
qed

lemma includesStr_chars: "includesStr s sub \<Longrightarrow> set sub \<subseteq> set s"
proof (induction s)
  case Nil
  then show ?case by simp
next
  case (Cons c cs)
  from Cons.prems consider "prefix sub (c # cs)" | "includesStr cs sub" by auto
  then show ?case
  proof cases
    case 1
    then show ?thesis by (rule set_mono_prefix)
  next
    case 2
    with Cons.IH show ?thesis by auto
  qed
qed

lemma throwLast_httpError: "throwLast (Some (httpError st)) = httpError st"
proof -
  have "\<not> includesStr (''HTTP '' @ string_of_nat st) ''Failed to fetch''"
  proof
    assume "includesStr (''HTTP '' @ string_of_nat st) ''Failed to fetch''"
    from includesStr_chars[OF this] have "CHR ''F'' \<in> set (''HTTP '' @ string_of_nat st)"
      by auto
    with digits_string_of_nat[of st] show False by auto
  qed
  then show ?thesis
    by (simp add: throwLast_def httpError_def Error_def)
qed

lemma publish_enablePages:
  assumes "handlePublish svc cancelAt start = (ex, w)" and "EnablePages \<in> set (issued w)"
  shows "case svc_enablePages svc (length (issued w) - 1) of
           Inr u \<Rightarrow> ex = Succeeded \<and> atRest deployed (state w)
         | Inl e \<Rightarrow> if isAbortError e then ex = Cancelled
                    else ex = Failed e \<and> atRest ready (state w)"
  using assms unfolding handlePublish_def
  by (auto simp: Let_def startTask_def publishCatch_def dest!: pushFiles_issued
      split: sum.splits prod.splits ctl.splits option.splits if_splits)

text \<open>
  Claim C10, as stated: \<open>enablePages\<close> returns normally for every HTTP status. If
  the hosting service answers 500 to all three attempts, \<open>enablePages\<close> raises, and
  a Publish run that came this far ends by a fatal error in status \<open>ready\<close>, not
  in \<open>deployed\<close>.
\<close>

theorem enablePages_raises_on_server_error:
  "enablePages (\<lambda>i. Inr serverError) None = (Inl (httpError 500), [])
   \<and> fst (handlePublish
           (cooperative\<lparr>svc_enablePages := (\<lambda>k. fst (enablePages (\<lambda>i. Inr serverError) None))\<rparr>)
           None builtState) = Failed (httpError 500)
   \<and> status (state (snd (handlePublish
           (cooperative\<lparr>svc_enablePages := (\<lambda>k. fst (enablePages (\<lambda>i. Inr serverError) None))\<rparr>)
           None builtState))) = ready"
proof -
  have raised: "enablePages (\<lambda>i. Inr serverError) None = (Inl (httpError 500), [])"
    by (simp add: enablePages_def fetchWithRetry_def fetchLoop.simps tryFetch_def
        serverError_def throwLast_httpError Let_def)
  have name: "\<not> isAbortError (httpError 500)"
    by (simp add: isAbortError_def httpError_def Error_def)
  show ?thesis
    unfolding raised
    by (simp add: runner_defs example_defs httpError_def)
qed

text \<open>
  The text of the warning can be built unless the body is the JSON value \<^verbatim>\<open>null\<close>, or
  an object whose \<^verbatim>\<open>message\<close> cannot be converted to a string.
\<close>

lemma errorMessage_returns:
  "(\<exists>m. errorMessage res = Inr m) \<longleftrightarrow>
     (case res_json res of
        Inl reason \<Rightarrow> True
      | Inr JNull \<Rightarrow> False
      | Inr (JObject ms) \<Rightarrow> (case map_of (rev ms) ''message'' of None \<Rightarrow> True | Some v \<Rightarrow> printable v)
      | Inr v \<Rightarrow> True)"
  by (auto simp: errorMessage_def messageOf_def interpolate_def
      split: sum.splits json.splits option.splits if_splits)

text \<open>
  An answer that is neither \<^verbatim>\<open>ok\<close> nor 409 and whose body is the JSON value \<^verbatim>\<open>null\<close>
  makes \<open>enablePages\<close> raise, in the attempt to log it: the handler installed on
  \<^verbatim>\<open>res.json()\<close> replaces a rejection only, and reading \<^verbatim>\<open>message\<close> on \<^verbatim>\<open>null\<close> throws.
  The Publish run then ends by a fatal error in \<open>ready\<close>.
\<close>

lemma enablePages_null_body:
  "enablePages (\<lambda>i. Inr forbiddenNull) None = (Inl nullRead, [])
   \<and> fst (handlePublish
           (cooperative\<lparr>svc_enablePages := (\<lambda>k. fst (enablePages (\<lambda>i. Inr forbiddenNull) None))\<rparr>)
           None builtState) = Failed nullRead
   \<and> status (state (snd (handlePublish
           (cooperative\<lparr>svc_enablePages := (\<lambda>k. fst (enablePages (\<lambda>i. Inr forbiddenNull) None))\<rparr>)
           None builtState))) = ready"
proof -
  have raised: "enablePages (\<lambda>i. Inr forbiddenNull) None = (Inl nullRead, [])"
    by (simp add: enablePages_def fetchWithRetry_def fetchLoop.simps tryFetch_def
        forbiddenNull_def ok_def errorMessage_def messageOf_def)
  show ?thesis
    unfolding raised
    by (simp add: runner_defs example_defs nullRead_def)
qed

text \<open>
  Claim C10, amended. A response that \<open>fetchWithRetry\<close> hands back never has status
  429 or a status from 500 on. For every such response that is \<^verbatim>\<open>ok\<close>, has status
  409, or has a body from which the text of the warning can be built (as from a
  body that is not JSON, and from a JSON object whose \<^verbatim>\<open>message\<close> is absent or a
  string), \<open>enablePages\<close> returns normally; a status that is neither \<^verbatim>\<open>ok\<close> nor 409
  is only logged, in one line. When \<open>fetchWithRetry\<close> raises, on an abort or when
  the third attempt has failed too, be it at transport level or with status 429
  or 5xx, \<open>enablePages\<close> raises the same error, for three such statuses the error
  of the last attempt. A Publish run that has issued the enable call ends by
  success in \<open>deployed\<close> if that call returns, and by a fatal error in \<open>ready\<close> if it
  raises anything but an abort.
\<close>

theorem enablePages_returns_unless_fetch_fails:
  "(\<forall>res. outcome (fetchWithRetry fetch 3 signal) = Inr res \<longrightarrow>
       res_status res \<noteq> 429 \<and> res_status res < 500
       \<and> (ok res \<or> res_status res = 409 \<or> (\<exists>m. errorMessage res = Inr m) \<longrightarrow>
            fst (enablePages fetch signal) = Inr ()
            \<and> length (snd (enablePages fetch signal))
                = (if \<not> ok res \<and> res_status res \<noteq> 409 then 1 else 0)))
   \<and> (\<forall>e. outcome (fetchWithRetry fetch 3 signal) = Inl e \<longrightarrow>
         enablePages fetch signal = (Inl e, []))
   \<and> (\<forall>k res. k < 3 \<and> (\<forall>j < k. \<exists>e. tryFetch (fetch j) = Inl e \<and> err_name e \<noteq> ''AbortError'')
         \<and> fetch k = Inr res \<and> res_status res \<noteq> 429 \<and> res_status res < 500
         \<and> (ok res \<or> res_status res = 409 \<or> (\<exists>m. errorMessage res = Inr m)) \<longrightarrow>
         fst (enablePages fetch None) = Inr ())
   \<and> ((\<forall>j < 3. \<exists>res. fetch j = Inr res \<and> (res_status res = 429 \<or> 500 \<le> res_status res)) \<longrightarrow>
         (\<exists>res. fetch 2 = Inr res
            \<and> enablePages fetch None = (Inl (httpError (res_status res)), [])))
   \<and> (EnablePages \<in> set (issued (snd (handlePublish svc cancelAt start))) \<longrightarrow>
        (case svc_enablePages svc (length (issued (snd (handlePublish svc cancelAt start))) - 1) of
           Inr u \<Rightarrow> fst (handlePublish svc cancelAt start) = Succeeded
                    \<and> atRest deployed (state (snd (handlePublish svc cancelAt start)))
         | Inl e \<Rightarrow> if isAbortError e then fst (handlePublish svc cancelAt start) = Cancelled
                    else fst (handlePublish svc cancelAt start) = Failed e
                         \<and> atRest ready (state (snd (handlePublish svc cancelAt start)))))"
proof -
  have returns: "fst (enablePages fetch sig) = Inr ()
            \<and> length (snd (enablePages fetch sig))
                = (if \<not> ok res \<and> res_status res \<noteq> 409 then 1 else 0)"
    if "outcome (fetchWithRetry fetch 3 sig) = Inr res"
      "ok res \<or> res_status res = 409 \<or> (\<exists>m. errorMessage res = Inr m)" for sig res
  proof (cases "\<not> ok res \<and> res_status res \<noteq> 409")
    case True
    with that(2) obtain m where "errorMessage res = Inr m" by blast
    with that(1) True show ?thesis
      by (simp add: enablePages_def)
  next
    case False
    with that(1) show ?thesis
      by (auto simp: enablePages_def)
  qed
  have A: "\<forall>res. outcome (fetchWithRetry fetch 3 signal) = Inr res \<longrightarrow>
       res_status res \<noteq> 429 \<and> res_status res < 500
       \<and> (ok res \<or> res_status res = 409 \<or> (\<exists>m. errorMessage res = Inr m) \<longrightarrow>
            fst (enablePages fetch signal) = Inr ()
            \<and> length (snd (enablePages fetch signal))
                = (if \<not> ok res \<and> res_status res \<noteq> 409 then 1 else 0))"
  proof (intro allI impI conjI)
    fix res
    assume d: "outcome (fetchWithRetry fetch 3 signal) = Inr res"
    with fetchLoop_delivered[of fetch 3 signal 0 None res]
    show "res_status res \<noteq> 429" and "res_status res < 500"
      by (simp_all add: fetchWithRetry_def)
    assume "ok res \<or> res_status res = 409 \<or> (\<exists>m. errorMessage res = Inr m)"
    from returns[OF d this]
    show "fst (enablePages fetch signal) = Inr ()"
      and "length (snd (enablePages fetch signal))
                = (if \<not> ok res \<and> res_status res \<noteq> 409 then 1 else 0)"
      by simp_all
  qed
  have B: "\<forall>e. outcome (fetchWithRetry fetch 3 signal) = Inl e \<longrightarrow>
         enablePages fetch signal = (Inl e, [])"
    by (simp add: enablePages_def)
  have C: "\<forall>k res. k < 3 \<and> (\<forall>j < k. \<exists>e. tryFetch (fetch j) = Inl e \<and> err_name e \<noteq> ''AbortError'')
         \<and> fetch k = Inr res \<and> res_status res \<noteq> 429 \<and> res_status res < 500
         \<and> (ok res \<or> res_status res = 409 \<or> (\<exists>m. errorMessage res = Inr m)) \<longrightarrow>
         fst (enablePages fetch None) = Inr ()"
  proof (intro allI impI)
    fix k res
    assume h: "k < 3 \<and> (\<forall>j < k. \<exists>e. tryFetch (fetch j) = Inl e \<and> err_name e \<noteq> ''AbortError'')
         \<and> fetch k = Inr res \<and> res_status res \<noteq> 429 \<and> res_status res < 500
         \<and> (ok res \<or> res_status res = 409 \<or> (\<exists>m. errorMessage res = Inr m))"
    then have "tryFetch (fetch k) = Inr res"
      by (simp add: tryFetch_def)
    with h have d: "outcome (fetchWithRetry fetch 3 None) = Inr res"
      using fetchWithRetry_delivers[of k fetch res] by simp
    from h have "ok res \<or> res_status res = 409 \<or> (\<exists>m. errorMessage res = Inr m)" by blast
    from returns[OF d this] show "fst (enablePages fetch None) = Inr ()"
      by simp
  qed
  have D: "(\<forall>j < 3. \<exists>res. fetch j = Inr res \<and> (res_status res = 429 \<or> 500 \<le> res_status res)) \<longrightarrow>
         (\<exists>res. fetch 2 = Inr res
            \<and> enablePages fetch None = (Inl (httpError (res_status res)), []))"
  proof
    assume h: "\<forall>j < 3. \<exists>res. fetch j = Inr res \<and> (res_status res = 429 \<or> 500 \<le> res_status res)"
    have thrown: "\<exists>e. tryFetch (fetch j) = Inl e \<and> err_name e \<noteq> ''AbortError''" if "j < 3" for j
    proof -
      from h that obtain res where "fetch j = Inr res" "res_status res = 429 \<or> 500 \<le> res_status res"
        by blast
      then have "tryFetch (fetch j) = Inl (httpError (res_status res))"
        by (auto simp: tryFetch_def)
      moreover have "err_name (httpError (res_status res)) \<noteq> ''AbortError''"
        by (simp add: httpError_def Error_def)
      ultimately show ?thesis by blast
    qed
    then have "\<forall>j < 3. \<exists>e. tryFetch (fetch j) = Inl e \<and> err_name e \<noteq> ''AbortError''" by blast
    from fetchWithRetry_three_failures[OF this] obtain e
      where e: "tryFetch (fetch 2) = Inl e"
        "fetchWithRetry fetch 3 None
           = \<lparr>outcome = Inl (throwLast (Some e)), invocations = 3,
              waits = [Double 1000, Double 2000]\<rparr>"
      by blast
    have "(2::nat) < 3" by simp
    with h obtain res where res: "fetch 2 = Inr res" "res_status res = 429 \<or> 500 \<le> res_status res"
      by blast
    then have "tryFetch (fetch 2) = Inl (httpError (res_status res))"
      by (auto simp: tryFetch_def)
    with e(1) have "e = httpError (res_status res)" by simp
    with e(2) have "outcome (fetchWithRetry fetch 3 None) = Inl (httpError (res_status res))"
      by (simp add: throwLast_httpError)
    then have "enablePages fetch None = (Inl (httpError (res_status res)), [])"
      by (simp add: enablePages_def)
    with res show "\<exists>res. fetch 2 = Inr res
            \<and> enablePages fetch None = (Inl (httpError (res_status res)), [])"
      by blast
  qed
  have E: "EnablePages \<in> set (issued (snd (handlePublish svc cancelAt start))) \<longrightarrow>
        (case svc_enablePages svc (length (issued (snd (handlePublish svc cancelAt start))) - 1) of
           Inr u \<Rightarrow> fst (handlePublish svc cancelAt start) = Succeeded
                    \<and> atRest deployed (state (snd (handlePublish svc cancelAt start)))
         | Inl e \<Rightarrow> if isAbortError e then fst (handlePublish svc cancelAt start) = Cancelled
                    else fst (handlePublish svc cancelAt start) = Failed e
                         \<and> atRest ready (state (snd (handlePublish svc cancelAt start))))"
    using publish_enablePages[OF prod.collapse[symmetric], of svc cancelAt start] by blast
  show ?thesis
    by (intro conjI; (fact A | fact B | fact C | fact D | fact E))
qed

theorem enablePages_returns_unless_fetch_fails_witness:
  "fst (enablePages (\<lambda>i. Inr notFound) None) = Inr ()
   \<and> length (snd (enablePages (\<lambda>i. Inr notFound) None)) = 1
   \<and> fst (handlePublish
           (cooperative\<lparr>svc_enablePages := (\<lambda>k. fst (enablePages (\<lambda>i. Inr notFound) None))\<rparr>)
           None builtState) = Succeeded
   \<and> atRest deployed (state (snd (handlePublish
           (cooperative\<lparr>svc_enablePages := (\<lambda>k. fst (enablePages (\<lambda>i. Inr notFound) None))\<rparr>)
           None builtState)))"
proof -
  let ?fetch = "\<lambda>i::nat. Inr notFound :: error + Response"
  let ?svc = "cooperative\<lparr>svc_enablePages := (\<lambda>k. fst (enablePages ?fetch None))\<rparr>"
  have delivered: "outcome (fetchWithRetry ?fetch 3 None) = Inr notFound"
    by (simp add: fetchWithRetry_def fetchLoop.simps tryFetch_def notFound_def)
  have body: "errorMessage notFound = Inr ''Not Found''" "\<not> ok notFound"
      "res_status notFound \<noteq> 409"
    by (simp_all add: notFound_def ok_def errorMessage_def messageOf_def interpolate_def)
  note inst = enablePages_returns_unless_fetch_fails[where fetch = ?fetch and signal = None
      and svc = ?svc and cancelAt = None and start = builtState]
  from inst[THEN conjunct1, rule_format, OF delivered] body
  have a: "fst (enablePages ?fetch None) = Inr ()
      \<and> length (snd (enablePages ?fetch None)) = 1"
    by simp
  have reached: "EnablePages \<in> set (issued (snd (handlePublish ?svc None builtState)))"
    by (simp add: runner_defs example_defs a)
  from inst[THEN conjunct2, THEN conjunct2, THEN conjunct2, THEN conjunct2] reached
  have b: "fst (handlePublish ?svc None builtState) = Succeeded
      \<and> atRest deployed (state (snd (handlePublish ?svc None builtState)))"
    by (simp add: a)
  from a b show ?thesis by blast
qed

end
